theory Spec2Isabelle
  imports Complex_Main "HOL-Library.Word"
begin

unbundle bit_operations_syntax

section \<open>Common data\<close>

type_synonym byte = "8 word"
type_synonym bytes = "byte list"

text \<open>
  The exceptions of \<^verbatim>\<open>dissect/archive/exceptions.py\<close> that \<^verbatim>\<open>wim.py\<close> raises, together
  with the built-in exceptions its statements can raise: \<^verbatim>\<open>NotImplementedError\<close> (the
  "Unsupported" kind), \<^verbatim>\<open>AttributeError\<close> (a missing attribute), \<^verbatim>\<open>struct.error\<close>
  (a bad pattern or a short buffer in \<^verbatim>\<open>struct.unpack\<close>) and \<^verbatim>\<open>EOFError\<close>
  (a structure parsed past the end of its stream). Messages are not modelled.
\<close>

datatype error =
    InvalidHeaderError
  | NotImplementedError
  | FileNotFoundError
  | NotADirectoryError
  | NotAReparsePointError
  | AttributeError
  | StructError
  | EOFError

text \<open>
  A binary file object is its content together with a cursor. \<^verbatim>\<open>fh.seek(pos); fh.read(size)\<close>
  returns at most \<open>n\<close> bytes from \<open>pos\<close>, fewer at the end of the file; a negative
  \<open>n\<close> reads to the end (as \<^verbatim>\<open>io.BytesIO\<close> and \<^verbatim>\<open>io.FileIO\<close> do).
\<close>

definition fh_read :: "bytes \<Rightarrow> nat \<Rightarrow> int \<Rightarrow> bytes" where
  "fh_read content pos n =
     (if n < 0 then drop pos content else take (nat n) (drop pos content))"

text \<open>Python's slice \<^verbatim>\<open>xs[i:j]\<close>, with its negative indices and clamping.\<close>

definition py_slice :: "'a list \<Rightarrow> int \<Rightarrow> int \<Rightarrow> 'a list" where
  "py_slice xs i j =
     (let n = int (length xs);
          lo = (if i < 0 then max (i + n) 0 else min i n);
          hi = (if j < 0 then max (j + n) 0 else min j n)
      in take (nat (hi - lo)) (drop (nat lo) xs))"

text \<open>\<^verbatim>\<open>int.from_bytes(bs, "little")\<close>, also one item of a \<^verbatim>\<open>"<"\<close> pattern of \<^verbatim>\<open>struct\<close>.\<close>

fun from_bytes_little :: "bytes \<Rightarrow> nat" where
  "from_bytes_little [] = 0"
| "from_bytes_little (b # bs) = unat b + 256 * from_bytes_little bs"

section \<open>CompressedStream\<close>

definition DEFAULT_CHUNK_SIZE :: nat where
  "DEFAULT_CHUNK_SIZE = 32 * 1024"

record CompressedStream =
  cs_fh :: bytes
  cs_offset :: nat
  cs_compressed_size :: nat
  cs_original_size :: nat
  cs_decompressor :: "bytes \<Rightarrow> bytes"
  cs_chunks :: "nat list"

text \<open>
  The chunk table of \<^verbatim>\<open>CompressedStream.__init__\<close>. \<open>init_num_chunks\<close> is the local
  \<^verbatim>\<open>num_chunks\<close>, computed with the literal \<^verbatim>\<open>32 * 1024\<close>; \<open>entry_width\<close> is the
  size of one item of the pattern (\<^verbatim>\<open>Q\<close> is 8 bytes, \<^verbatim>\<open>I\<close> is 4).
\<close>

definition init_num_chunks :: "nat \<Rightarrow> int" where
  "init_num_chunks original_size = (int original_size + (32 * 1024) - 1) div (32 * 1024) - 1"

definition entry_width :: "nat \<Rightarrow> nat" where
  "entry_width original_size = (if original_size > 0xFFFFFFFF then 8 else 4)"

text \<open>
  \<^verbatim>\<open>struct.unpack(f"<{n}{c}", buf)\<close> for an item of \<open>w\<close> bytes: \<open>n\<close> little-endian
  unsigned integers, and \<^verbatim>\<open>struct.error\<close> when the buffer does not hold exactly
  \<open>n * w\<close> bytes.
\<close>

fun unpack_items :: "nat \<Rightarrow> nat \<Rightarrow> bytes \<Rightarrow> nat list" where
  "unpack_items w 0 buf = []"
| "unpack_items w (Suc n) buf = from_bytes_little (take w buf) # unpack_items w n (drop w buf)"

definition struct_unpack :: "nat \<Rightarrow> nat \<Rightarrow> bytes \<Rightarrow> error + nat list" where
  "struct_unpack w n buf = (if length buf \<noteq> n * w then Inl StructError else Inr (unpack_items w n buf))"

text \<open>
  The constructor returns the stream and the position of the file cursor after the table
  has been read. A negative count gives the pattern \<^verbatim>\<open>"<-1I"\<close>, which
  \<^verbatim>\<open>struct.calcsize\<close> rejects.
\<close>

definition CompressedStream_init ::
  "bytes \<Rightarrow> nat \<Rightarrow> nat \<Rightarrow> nat \<Rightarrow> (bytes \<Rightarrow> bytes) \<Rightarrow> error + (CompressedStream \<times> nat)" where
  "CompressedStream_init fh offset compressed_size original_size decompressor =
     (let num_chunks = init_num_chunks original_size;
          mk = (\<lambda>chunks. \<lparr>cs_fh = fh, cs_offset = offset, cs_compressed_size = compressed_size,
                   cs_original_size = original_size, cs_decompressor = decompressor,
                   cs_chunks = chunks\<rparr>)
      in if num_chunks = 0 then Inr (mk [0], offset)
         else if num_chunks < 0 then Inl StructError
         else let w = entry_width original_size;
                  calcsize = nat num_chunks * w;
                  buf = fh_read fh offset (int calcsize)
              in case struct_unpack w (nat num_chunks) buf of
                   Inl e \<Rightarrow> Inl e
                 | Inr chunks \<Rightarrow> Inr (mk chunks, offset + length buf))"

text \<open>\<^verbatim>\<open>_read_chunk\<close>; the \<^verbatim>\<open>lru_cache\<close> around it does not change what it returns.\<close>

definition read_chunk :: "CompressedStream \<Rightarrow> nat \<Rightarrow> int \<Rightarrow> bytes" where
  "read_chunk s offset n =
     cs_decompressor s (fh_read (cs_fh s) (cs_offset s + offset) n)"

text \<open>
  The loop of \<^verbatim>\<open>_read\<close>. Its state is \<^verbatim>\<open>chunk\<close>, \<^verbatim>\<open>length\<close>, the list \<^verbatim>\<open>result\<close> and,
  as the trace of its effects, the arguments of every \<^verbatim>\<open>_read_chunk\<close> call made so far.
  \<^verbatim>\<open>offset_in_chunk\<close> is assigned once before the loop and never again; the source's
  \<^verbatim>\<open>offset += read_length\<close> updates a variable the loop does not read, so it is left out.
\<close>

function read_loop ::
  "CompressedStream \<Rightarrow> nat \<Rightarrow> nat \<Rightarrow> int \<Rightarrow> bytes list \<Rightarrow> (nat \<times> int) list
     \<Rightarrow> bytes list \<times> (nat \<times> int) list" where
  "read_loop s offset_in_chunk chunk len result calls =
     (let num_chunks = length (cs_chunks s)
      in if len = 0 then (result, calls)
         else if chunk \<ge> num_chunks then (result, calls)
         else
           let chunk_offset = cs_chunks s ! chunk;
               next_chunk_offset =
                 (if int chunk < int num_chunks - 1 then int (cs_chunks s ! (chunk + 1))
                  else int (cs_compressed_size s));
               chunk_remaining =
                 (if int chunk < int num_chunks - 1
                  then int DEFAULT_CHUNK_SIZE - int offset_in_chunk
                  else (int (cs_original_size s) - (int chunk * int DEFAULT_CHUNK_SIZE))
                         - int offset_in_chunk);
               read_length = min chunk_remaining len;
               chunk_size = next_chunk_offset - int chunk_offset;
               buf = read_chunk s chunk_offset chunk_size
           in read_loop s offset_in_chunk (chunk + 1) (len - read_length)
                (result @ [py_slice buf (int offset_in_chunk) (int offset_in_chunk + read_length)])
                (calls @ [(chunk_offset, chunk_size)]))"
  by pat_completeness auto
termination
  by (relation "measure (\<lambda>(s, oic, chunk, len, result, calls). length (cs_chunks s) - chunk)") auto

definition read_run :: "CompressedStream \<Rightarrow> nat \<Rightarrow> nat \<Rightarrow> bytes list \<times> (nat \<times> int) list" where
  "read_run s offset len =
     read_loop s (offset mod DEFAULT_CHUNK_SIZE) (offset div DEFAULT_CHUNK_SIZE) (int len) [] []"

text \<open>\<^verbatim>\<open>_read(offset, length)\<close>: the joined result, and the \<^verbatim>\<open>_read_chunk\<close> calls it made.\<close>

definition CompressedStream_read :: "CompressedStream \<Rightarrow> nat \<Rightarrow> nat \<Rightarrow> bytes" where
  "CompressedStream_read s offset len = concat (fst (read_run s offset len))"

definition read_calls :: "CompressedStream \<Rightarrow> nat \<Rightarrow> nat \<Rightarrow> (nat \<times> int) list" where
  "read_calls s offset len = snd (read_run s offset len)"

section \<open>Constants of \<^verbatim>\<open>c_wim\<close>\<close>

text \<open>
  The module \<^verbatim>\<open>dissect/archive/c_wim.py\<close>, which holds the constants, flag enumerations and
  record layouts that \<^verbatim>\<open>wim.py\<close> imports, is not among the sources. Its constants are given
  the values that the specification lists for the file format.
\<close>

text \<open>Modelled from the spec: \<^verbatim>\<open>WIM_IMAGE_TAG\<close>, the 8-byte image tag \<^verbatim>\<open>MSWIM\0\0\0\<close>.\<close>

definition WIM_IMAGE_TAG :: bytes where
  "WIM_IMAGE_TAG = [0x4D, 0x53, 0x57, 0x49, 0x4D, 0, 0, 0]"

text \<open>Modelled from the spec: \<^verbatim>\<open>c_wim.VERSION_DEFAULT\<close>, the version \<^verbatim>\<open>0x00010d00\<close>.\<close>

definition VERSION_DEFAULT :: "32 word" where
  "VERSION_DEFAULT = 0x00010d00"

text \<open>Modelled from the spec: \<^verbatim>\<open>HEADER_FLAG.SPANNED\<close>, the header flag \<^verbatim>\<open>SPANNED = 0x8\<close>.\<close>

definition HEADER_FLAG_SPANNED :: "32 word" where
  "HEADER_FLAG_SPANNED = 0x8"

text \<open>Modelled from the spec: \<^verbatim>\<open>RESHDR_FLAG.METADATA\<close>, the resource flag \<^verbatim>\<open>METADATA = 0x02\<close>.\<close>

definition RESHDR_FLAG_METADATA :: "8 word" where
  "RESHDR_FLAG_METADATA = 0x02"

text \<open>Modelled from the spec: \<^verbatim>\<open>RESHDR_FLAG.COMPRESSED\<close>, the resource flag \<^verbatim>\<open>COMPRESSED = 0x04\<close>.\<close>

definition RESHDR_FLAG_COMPRESSED :: "8 word" where
  "RESHDR_FLAG_COMPRESSED = 0x04"

text \<open>Modelled from the spec: \<^verbatim>\<open>RESHDR_FLAG.SPANNED\<close>, the resource flag \<^verbatim>\<open>SPANNED = 0x08\<close>.\<close>

definition RESHDR_FLAG_SPANNED :: "8 word" where
  "RESHDR_FLAG_SPANNED = 0x08"

text \<open>Modelled from the spec: \<^verbatim>\<open>FILE_ATTRIBUTE.DIRECTORY\<close>, the file attribute \<^verbatim>\<open>DIRECTORY = 0x10\<close>.\<close>

definition FILE_ATTRIBUTE_DIRECTORY :: "32 word" where
  "FILE_ATTRIBUTE_DIRECTORY = 0x10"

text \<open>
  Modelled from the spec: \<^verbatim>\<open>FILE_ATTRIBUTE.REPARSE_POINT\<close>, the file attribute
  \<^verbatim>\<open>REPARSE_POINT = 0x400\<close>.
\<close>

definition FILE_ATTRIBUTE_REPARSE_POINT :: "32 word" where
  "FILE_ATTRIBUTE_REPARSE_POINT = 0x400"

text \<open>Modelled from the spec: \<^verbatim>\<open>IO_REPARSE_TAG.MOUNT_POINT\<close>, the reparse tag \<^verbatim>\<open>0xA0000003\<close>.\<close>

definition IO_REPARSE_TAG_MOUNT_POINT :: "32 word" where
  "IO_REPARSE_TAG_MOUNT_POINT = 0xA0000003"

text \<open>Modelled from the spec: \<^verbatim>\<open>IO_REPARSE_TAG.SYMLINK\<close>, the reparse tag \<^verbatim>\<open>0xA000000C\<close>.\<close>

definition IO_REPARSE_TAG_SYMLINK :: "32 word" where
  "IO_REPARSE_TAG_SYMLINK = 0xA000000C"

text \<open>
  Modelled from the spec: the parsed records \<^verbatim>\<open>RESHDR_DISK_SHORT\<close>, \<^verbatim>\<open>_RESHDR_DISK\<close> and
  \<^verbatim>\<open>WIMHEADER_V1_PACKED\<close> of \<^verbatim>\<open>c_wim\<close>, with the fields \<^verbatim>\<open>wim.py\<close> reads. \<^verbatim>\<open>Size\<close> of a
  short resource header is a 7-byte string (the source converts it with
  \<^verbatim>\<open>int.from_bytes\<close>), the other fields are unsigned integers.
\<close>

record RESHDR_DISK_SHORT =
  sh_Size :: bytes
  sh_Flags :: "8 word"
  sh_Offset :: nat
  sh_OriginalSize :: nat

record RESHDR_DISK =
  rh_Base :: RESHDR_DISK_SHORT
  rh_PartNumber :: nat
  rh_RefCount :: nat
  rh_Hash :: bytes

record WIMHEADER =
  ImageTag :: bytes
  Version :: "32 word"
  Flags :: "32 word"
  CompressionSize :: "32 word"
  OffsetTable :: RESHDR_DISK_SHORT

section \<open>Resource\<close>

record Resource =
  r_size :: nat
  r_flags :: "8 word"
  r_offset :: nat
  r_original_size :: nat
  r_part_number :: "nat option"
  r_reference_count :: "nat option"
  r_hash :: "bytes option"

definition from_short_header :: "RESHDR_DISK_SHORT \<Rightarrow> Resource" where
  "from_short_header reshdr =
     \<lparr>r_size = from_bytes_little (sh_Size reshdr), r_flags = sh_Flags reshdr,
      r_offset = sh_Offset reshdr, r_original_size = sh_OriginalSize reshdr,
      r_part_number = None, r_reference_count = None, r_hash = None\<rparr>"

definition from_header :: "RESHDR_DISK \<Rightarrow> Resource" where
  "from_header reshdr =
     (from_short_header (rh_Base reshdr))
       \<lparr>r_part_number := Some (rh_PartNumber reshdr),
        r_reference_count := Some (rh_RefCount reshdr),
        r_hash := Some (rh_Hash reshdr)\<rparr>"

definition is_metadata :: "Resource \<Rightarrow> bool" where
  "is_metadata r = (r_flags r AND RESHDR_FLAG_METADATA \<noteq> 0)"

definition is_compressed :: "Resource \<Rightarrow> bool" where
  "is_compressed r = (r_flags r AND RESHDR_FLAG_COMPRESSED \<noteq> 0)"

definition is_spanned :: "Resource \<Rightarrow> bool" where
  "is_spanned r = (r_flags r AND RESHDR_FLAG_SPANNED \<noteq> 0)"

text \<open>
  What \<^verbatim>\<open>Resource.open\<close> returns: a \<^verbatim>\<open>CompressedStream\<close>, or a \<^verbatim>\<open>RelativeStream\<close> over
  \<open>size\<close> bytes of the file from \<open>offset\<close>. \<^verbatim>\<open>DECOMPRESSOR_MAP\<close> belongs to \<^verbatim>\<open>c_wim\<close>
  and is a parameter.
\<close>

datatype stream = Compressed CompressedStream | Relative bytes nat nat

type_synonym decompressor_map = "32 word \<Rightarrow> (bytes \<Rightarrow> bytes) option"

definition Resource_open ::
  "decompressor_map \<Rightarrow> bytes \<Rightarrow> WIMHEADER \<Rightarrow> Resource \<Rightarrow> error + stream" where
  "Resource_open DECOMPRESSOR_MAP fh header r =
     (if is_spanned r then Inl NotImplementedError
      else if is_compressed r then
        (let compression_flags = Flags header AND 0xFFFF0000
         in case DECOMPRESSOR_MAP compression_flags of
              None \<Rightarrow> Inl NotImplementedError
            | Some decompressor \<Rightarrow>
                (case CompressedStream_init fh (r_offset r) (r_size r) (r_original_size r)
                        decompressor of
                   Inl e \<Rightarrow> Inl e
                 | Inr (s, pos) \<Rightarrow> Inr (Compressed s)))
      else Inr (Relative fh (r_offset r) (r_size r)))"

section \<open>WIM\<close>

text \<open>
  A Python \<^verbatim>\<open>dict\<close> as an association list in insertion order: storing under a key that
  is present replaces the value in place.
\<close>

fun dict_set :: "'k \<Rightarrow> 'v \<Rightarrow> ('k \<times> 'v) list \<Rightarrow> ('k \<times> 'v) list" where
  "dict_set k v [] = [(k, v)]"
| "dict_set k v ((k', v') # kvs) =
     (if k = k' then (k, v) # kvs else (k', v') # dict_set k v kvs)"

record WIM =
  wim_fh :: bytes
  wim_header :: WIMHEADER
  resource_table :: "(bytes option \<times> Resource) list"
  wim_images :: "Resource list"

text \<open>The body of the loop of \<^verbatim>\<open>_read_resource_table\<close>, over the parsed table entries.\<close>

fun table_loop ::
  "RESHDR_DISK list \<Rightarrow> (bytes option \<times> Resource) list \<Rightarrow> Resource list
     \<Rightarrow> (bytes option \<times> Resource) list \<times> Resource list" where
  "table_loop [] table images = (table, images)"
| "table_loop (reshdr # rest) table images =
     (let resource = from_header reshdr
      in table_loop rest (dict_set (r_hash resource) resource table)
           (if is_metadata resource then images @ [resource] else images))"

text \<open>
  \<^verbatim>\<open>_read_resource_table\<close>. The parsing of the opened stream into its
  \<^verbatim>\<open>fh.size // len(c_wim._RESHDR_DISK)\<close> entries is done by \<^verbatim>\<open>c_wim\<close> and is the parameter
  \<open>parse\<close>: \<open>None\<close> when the stream ends inside an entry.
\<close>

definition read_resource_table ::
  "(stream \<Rightarrow> RESHDR_DISK list option) \<Rightarrow> decompressor_map \<Rightarrow> bytes \<Rightarrow> WIMHEADER
     \<Rightarrow> error + ((bytes option \<times> Resource) list \<times> Resource list)" where
  "read_resource_table parse DECOMPRESSOR_MAP fh header =
     (case Resource_open DECOMPRESSOR_MAP fh header (from_short_header (OffsetTable header)) of
        Inl e \<Rightarrow> Inl e
      | Inr st \<Rightarrow>
          (case parse st of
             None \<Rightarrow> Inl EOFError
           | Some entries \<Rightarrow> Inr (table_loop entries [] [])))"

text \<open>The three checks at the start of \<^verbatim>\<open>WIM.__init__\<close>, in the order of the source.\<close>

definition header_check :: "WIMHEADER \<Rightarrow> error option" where
  "header_check header =
     (if ImageTag header \<noteq> WIM_IMAGE_TAG then Some InvalidHeaderError
      else if Version header \<noteq> VERSION_DEFAULT then Some NotImplementedError
      else if Flags header AND HEADER_FLAG_SPANNED \<noteq> 0 then Some NotImplementedError
      else None)"

definition WIM_init ::
  "(stream \<Rightarrow> RESHDR_DISK list option) \<Rightarrow> decompressor_map \<Rightarrow> bytes \<Rightarrow> WIMHEADER
     \<Rightarrow> error + WIM" where
  "WIM_init parse DECOMPRESSOR_MAP fh header =
     (case header_check header of
        Some e \<Rightarrow> Inl e
      | None \<Rightarrow>
          (case read_resource_table parse DECOMPRESSOR_MAP fh header of
             Inl e \<Rightarrow> Inl e
           | Inr (table, images) \<Rightarrow>
               Inr \<lparr>wim_fh = fh, wim_header = header, resource_table = table,
                    wim_images = images\<rparr>))"

definition resources :: "WIM \<Rightarrow> Resource list" where
  "resources wim = map snd (resource_table wim)"

section \<open>SecurityBlock\<close>

text \<open>
  Modelled from the spec: the parsed header \<^verbatim>\<open>_SECURITYBLOCK_DISK\<close> of \<^verbatim>\<open>c_wim\<close>, "a leading
  header (total_length, num_entries, entry_lengths)".
\<close>

record SECURITYBLOCK_DISK =
  TotalLength :: nat
  NumEntries :: nat
  EntryLength :: "nat list"

text \<open>
  The loop of \<^verbatim>\<open>SecurityBlock.__init__\<close> over \<^verbatim>\<open>header.EntryLength\<close>: the metadata stream is
  its content and the cursor \<open>pos\<close>, left after the header by the parse of
  \<^verbatim>\<open>_SECURITYBLOCK_DISK\<close>. It returns the descriptors and the cursor.
\<close>

fun read_descriptors :: "bytes \<Rightarrow> nat \<Rightarrow> nat list \<Rightarrow> bytes list \<Rightarrow> bytes list \<times> nat" where
  "read_descriptors content pos [] descriptors = (descriptors, pos)"
| "read_descriptors content pos (sz # rest) descriptors =
     (if sz = 0 then read_descriptors content pos rest descriptors
      else let d = fh_read content pos (int sz)
           in read_descriptors content (pos + length d) rest (descriptors @ [d]))"

record SecurityBlock =
  sb_header :: SECURITYBLOCK_DISK
  descriptors :: "bytes list"

definition SecurityBlock_init :: "SECURITYBLOCK_DISK \<Rightarrow> bytes \<Rightarrow> nat \<Rightarrow> SecurityBlock \<times> nat" where
  "SecurityBlock_init header content pos =
     (let (ds, pos') = read_descriptors content pos (EntryLength header) []
      in (\<lparr>sb_header = header, descriptors = ds\<rparr>, pos'))"

section \<open>DirectoryEntry and Image\<close>

text \<open>
  A directory entry with the fields the navigation reads: the decoded \<^verbatim>\<open>name\<close>
  (\<open>None\<close> when \<^verbatim>\<open>FileNameLength\<close> is 0), \<^verbatim>\<open>entry.Attributes\<close>, \<^verbatim>\<open>entry.ReparseTag\<close>, the
  dictionary \<^verbatim>\<open>streams\<close>, and the entries that the parse loop of \<^verbatim>\<open>iterdir\<close> yields from
  \<^verbatim>\<open>entry.SubdirOffset\<close> (the layout of \<^verbatim>\<open>_DIRENTRY\<close> belongs to \<^verbatim>\<open>c_wim\<close>).
\<close>

datatype DirectoryEntry =
  DirectoryEntry (name: "string option") (Attributes: "32 word") (ReparseTag: "32 word")
    (streams: "string \<rightharpoonup> bytes") (subdir: "DirectoryEntry list")

definition is_dir :: "DirectoryEntry \<Rightarrow> bool" where
  "is_dir e =
     (Attributes e AND (FILE_ATTRIBUTE_DIRECTORY OR FILE_ATTRIBUTE_REPARSE_POINT)
        = FILE_ATTRIBUTE_DIRECTORY)"

definition is_file :: "DirectoryEntry \<Rightarrow> bool" where
  "is_file e = (\<not> is_dir e)"

definition is_reparse_point :: "DirectoryEntry \<Rightarrow> bool" where
  "is_reparse_point e = (Attributes e AND FILE_ATTRIBUTE_REPARSE_POINT \<noteq> 0)"

definition iterdir :: "DirectoryEntry \<Rightarrow> error + DirectoryEntry list" where
  "iterdir e = (if \<not> is_dir e then Inl NotADirectoryError else Inr (subdir e))"

text \<open>
  \<^verbatim>\<open>DirectoryEntry.open\<close>. Its first test is \<^verbatim>\<open>hash is None\<close>, on the built-in function
  \<^verbatim>\<open>hash\<close>, which is never \<^verbatim>\<open>None\<close>; the scan compares \<^verbatim>\<open>resource.hash\<close> with the result
  of \<^verbatim>\<open>streams.get(name)\<close>, which is \<^verbatim>\<open>None\<close> for a missing key.
\<close>

definition builtin_hash_is_None :: bool where
  "builtin_hash_is_None = False"

definition DirectoryEntry_open ::
  "decompressor_map \<Rightarrow> WIM \<Rightarrow> DirectoryEntry \<Rightarrow> string \<Rightarrow> error + stream" where
  "DirectoryEntry_open DECOMPRESSOR_MAP wim e nm =
     (let stream_hash = streams e nm
      in if builtin_hash_is_None then Inl FileNotFoundError
         else case find (\<lambda>resource. r_hash resource = stream_hash) (resources wim) of
                Some resource \<Rightarrow> Resource_open DECOMPRESSOR_MAP (wim_fh wim) (wim_header wim) resource
              | None \<Rightarrow> Inl FileNotFoundError)"

record Image =
  security :: SecurityBlock
  root_entry :: DirectoryEntry

text \<open>\<^verbatim>\<open>str.replace("/", "\\")\<close> and \<^verbatim>\<open>str.split("\\")\<close>; the backslash is character 0x5C.\<close>

definition backslash :: char where
  "backslash = CHR 0x5C"

definition replace_slash :: "string \<Rightarrow> string" where
  "replace_slash path = map (\<lambda>c. if c = CHR ''/'' then backslash else c) path"

fun split_on :: "char \<Rightarrow> string \<Rightarrow> string list" where
  "split_on sep [] = [[]]"
| "split_on sep (c # cs) =
     (if c = sep then [] # split_on sep cs
      else (case split_on sep cs of
              [] \<Rightarrow> [[c]]
            | p # ps \<Rightarrow> (c # p) # ps))"

text \<open>
  The loop of \<^verbatim>\<open>Image.get\<close> over the parts of the path: an empty part is skipped; the inner
  \<^verbatim>\<open>for ... else\<close> takes the first entry of \<^verbatim>\<open>entry.iterdir()\<close> whose name is the part.
\<close>

fun get_loop :: "DirectoryEntry \<Rightarrow> string list \<Rightarrow> error + DirectoryEntry" where
  "get_loop entry [] = Inr entry"
| "get_loop entry (part # parts) =
     (if part = [] then get_loop entry parts
      else case iterdir entry of
             Inl e \<Rightarrow> Inl e
           | Inr entries \<Rightarrow>
               (case find (\<lambda>child. name child = Some part) entries of
                  None \<Rightarrow> Inl FileNotFoundError
                | Some child \<Rightarrow> get_loop child parts))"

definition Image_get :: "Image \<Rightarrow> string \<Rightarrow> DirectoryEntry option \<Rightarrow> error + DirectoryEntry" where
  "Image_get img path entry =
     (let search_path = replace_slash path;
          parts = split_on backslash search_path
      in get_loop (case entry of None \<Rightarrow> root_entry img | Some e \<Rightarrow> e) parts)"

section \<open>ReparsePoint\<close>

text \<open>
  Modelled from the spec: the parsed buffer header of a mount point or a symbolic link
  (\<^verbatim>\<open>_MOUNT_POINT_REPARSE_BUFFER\<close>, \<^verbatim>\<open>_SYMBOLIC_LINK_REPARSE_BUFFER\<close> of \<^verbatim>\<open>c_wim\<close>; \<^verbatim>\<open>Flags\<close>
  only for the latter). Then the object built by \<^verbatim>\<open>ReparsePoint.__init__\<close>: it sets exactly the
  attributes \<^verbatim>\<open>tag\<close>, \<^verbatim>\<open>info\<close> and \<^verbatim>\<open>_buf\<close>. The two parsers belong to \<^verbatim>\<open>c_wim\<close> and are
  parameters; each returns the header and the bytes that follow it.
\<close>

record REPARSE_BUFFER =
  SubstituteNameOffset :: nat
  SubstituteNameLength :: nat
  PrintNameOffset :: nat
  PrintNameLength :: nat
  SymlinkFlags :: "nat option"

record ReparsePoint =
  rp_tag :: "32 word"
  rp_info :: "REPARSE_BUFFER option"
  rp_buf :: bytes

definition ReparsePoint_init ::
  "(bytes \<Rightarrow> REPARSE_BUFFER \<times> bytes) \<Rightarrow> (bytes \<Rightarrow> REPARSE_BUFFER \<times> bytes) \<Rightarrow> 32 word \<Rightarrow> bytes
     \<Rightarrow> ReparsePoint" where
  "ReparsePoint_init parse_mount_point parse_symlink tag content =
     (if tag = IO_REPARSE_TAG_MOUNT_POINT then
        (let (info, rest) = parse_mount_point content
         in \<lparr>rp_tag = tag, rp_info = Some info, rp_buf = rest\<rparr>)
      else if tag = IO_REPARSE_TAG_SYMLINK then
        (let (info, rest) = parse_symlink content
         in \<lparr>rp_tag = tag, rp_info = Some info, rp_buf = rest\<rparr>)
      else \<lparr>rp_tag = tag, rp_info = None, rp_buf = content\<rparr>)"

text \<open>
  Attribute lookup on a \<^verbatim>\<open>ReparsePoint\<close>: the instance attributes set by \<^verbatim>\<open>__init__\<close>;
  the class defines only the four properties, so any other name raises
  \<^verbatim>\<open>AttributeError\<close>.
\<close>

datatype attr_value = TagValue "32 word" | InfoValue "REPARSE_BUFFER option" | BufValue bytes

definition rp_getattr :: "ReparsePoint \<Rightarrow> string \<Rightarrow> error + attr_value" where
  "rp_getattr rp attr =
     (if attr = ''tag'' then Inr (TagValue (rp_tag rp))
      else if attr = ''info'' then Inr (InfoValue (rp_info rp))
      else if attr = ''_buf'' then Inr (BufValue (rp_buf rp))
      else Inl AttributeError)"

fun truthy :: "attr_value \<Rightarrow> bool" where
  "truthy (TagValue t) = (t \<noteq> 0)"
| "truthy (InfoValue i) = (i \<noteq> None)"
| "truthy (BufValue b) = (b \<noteq> [])"

text \<open>
  The two name properties; \<open>decode\<close> is \<^verbatim>\<open>bytes.decode("utf-16-le")\<close>. \<^verbatim>\<open>substitute_name\<close>
  tests \<^verbatim>\<open>self.tag_header\<close>, \<^verbatim>\<open>print_name\<close> tests \<^verbatim>\<open>self.info\<close>.
\<close>

definition name_at :: "(bytes \<Rightarrow> string) \<Rightarrow> ReparsePoint \<Rightarrow> nat \<Rightarrow> nat \<Rightarrow> string" where
  "name_at decode rp offset len = decode (py_slice (rp_buf rp) (int offset) (int offset + int len))"

definition substitute_name :: "(bytes \<Rightarrow> string) \<Rightarrow> ReparsePoint \<Rightarrow> error + string option" where
  "substitute_name decode rp =
     (case rp_getattr rp ''tag_header'' of
        Inl e \<Rightarrow> Inl e
      | Inr guard \<Rightarrow>
          if \<not> truthy guard then Inr None
          else (case rp_info rp of
                  None \<Rightarrow> Inl AttributeError
                | Some info \<Rightarrow>
                    Inr (Some (name_at decode rp (SubstituteNameOffset info)
                                 (SubstituteNameLength info)))))"

definition print_name :: "(bytes \<Rightarrow> string) \<Rightarrow> ReparsePoint \<Rightarrow> error + string option" where
  "print_name decode rp =
     (case rp_getattr rp ''info'' of
        Inl e \<Rightarrow> Inl e
      | Inr guard \<Rightarrow>
          if \<not> truthy guard then Inr None
          else (case rp_info rp of
                  None \<Rightarrow> Inl AttributeError
                | Some info \<Rightarrow>
                    Inr (Some (name_at decode rp (PrintNameOffset info) (PrintNameLength info)))))"

section \<open>The specification's table size\<close>

text \<open>
  The number of chunk-table entries in the words of the specification,
  \<open>N = ceil(original_size / CHUNK) - 1\<close>, for a chunk size \<open>CHUNK\<close>.
\<close>

definition spec_table_entries :: "nat \<Rightarrow> nat \<Rightarrow> int" where
  "spec_table_entries CHUNK original_size = \<lceil>real original_size / real CHUNK\<rceil> - 1"

section \<open>Concrete inputs\<close>

text \<open>
  A decompressor with a fixed ratio: every compressed byte stands for a run of 4096 equal
  bytes, so that 8 compressed bytes make one chunk of 32 KiB.
\<close>

definition expand4k :: "bytes \<Rightarrow> bytes" where
  "expand4k buf = concat (map (replicate 4096) buf)"

definition example_dmap :: decompressor_map where
  "example_dmap compression_flags = (if compression_flags = 0x00020000 then Some expand4k else None)"

text \<open>
  A compressed resource of three chunks (\<open>original_size = 3 * 32768\<close>) at offset 0: a table
  of two 4-byte entries, 8 and 16 (the offsets of chunks 1 and 2 after the table), then
  the three compressed chunks of 8 bytes each; \<open>compressed_size = 32\<close>.
\<close>

definition three_chunk_fh :: bytes where
  "three_chunk_fh = [8, 0, 0, 0, 16, 0, 0, 0,
                     1, 2, 3, 4, 5, 6, 7, 8,
                     9, 10, 11, 12, 13, 14, 15, 16,
                     17, 18, 19, 20, 21, 22, 23, 24]"

definition three_chunk_stream :: CompressedStream where
  "three_chunk_stream =
     \<lparr>cs_fh = three_chunk_fh, cs_offset = 0, cs_compressed_size = 32,
      cs_original_size = 98304, cs_decompressor = expand4k, cs_chunks = [8, 16]\<rparr>"

text \<open>
  An archive whose header gives \<^verbatim>\<open>CompressionSize = 0x1000\<close>, and in it a compressed
  resource of 4097 bytes (two chunks of 4 KiB) at offset 0.
\<close>

definition header_4k :: WIMHEADER where
  "header_4k =
     \<lparr>ImageTag = WIM_IMAGE_TAG, Version = VERSION_DEFAULT, Flags = 0x00020002,
      CompressionSize = 0x1000,
      OffsetTable = \<lparr>sh_Size = [0, 0, 0, 0, 0, 0, 0], sh_Flags = 0, sh_Offset = 20,
                     sh_OriginalSize = 0\<rparr>\<rparr>"

definition fh_4k :: bytes where
  "fh_4k = [1, 0, 0, 0, 7, 9]"

definition resource_4k :: Resource where
  "resource_4k =
     \<lparr>r_size = 6, r_flags = 0x04, r_offset = 0, r_original_size = 4097,
      r_part_number = Some 1, r_reference_count = Some 1, r_hash = Some [0x4B]\<rparr>"

definition stream_4k :: CompressedStream where
  "stream_4k =
     \<lparr>cs_fh = fh_4k, cs_offset = 0, cs_compressed_size = 6, cs_original_size = 4097,
      cs_decompressor = expand4k, cs_chunks = [0]\<rparr>"

text \<open>
  An archive of two resources, the content of \<^verbatim>\<open>file.txt\<close> and a metadata resource, with
  an uncompressed offset table; the hashes are those of \<^verbatim>\<open>file.txt\<close>, \<^verbatim>\<open>another.txt\<close> and
  \<^verbatim>\<open>ads.txt\<close> in the test of the repository.
\<close>

definition hash_file :: bytes where
  "hash_file = [0x0a, 0xaa, 0x82, 0x66, 0x64, 0x83, 0x64, 0xd6, 0x8b, 0x67,
                0xbe, 0x77, 0xc5, 0x3f, 0x70, 0x8a, 0x77, 0xfd, 0xa8, 0x4c]"

definition hash_another :: bytes where
  "hash_another = [0x1f, 0xc8, 0x3a, 0x89, 0x62, 0x87, 0xfe, 0x48, 0xf6, 0xd4,
                   0x2d, 0x8d, 0x04, 0xf8, 0x8f, 0x6d, 0xc9, 0x0c, 0x0c, 0x45]"

definition hash_ads :: bytes where
  "hash_ads = [0x8e, 0x2d, 0xbd, 0x4f, 0xf0, 0xc5, 0xe1, 0x25, 0xb4, 0x45,
               0xde, 0xd4, 0x76, 0xf5, 0xbb, 0x96, 0x37, 0xe1, 0x15, 0xa6]"

definition example_header :: WIMHEADER where
  "example_header =
     \<lparr>ImageTag = WIM_IMAGE_TAG, Version = VERSION_DEFAULT, Flags = 0x00020002,
      CompressionSize = 0x8000,
      OffsetTable = \<lparr>sh_Size = [100, 0, 0, 0, 0, 0, 0], sh_Flags = 0, sh_Offset = 400,
                     sh_OriginalSize = 100\<rparr>\<rparr>"

definition example_entries :: "RESHDR_DISK list" where
  "example_entries =
     [\<lparr>rh_Base = \<lparr>sh_Size = [70, 0, 0, 0, 0, 0, 0], sh_Flags = 0, sh_Offset = 208,
                  sh_OriginalSize = 70\<rparr>,
       rh_PartNumber = 1, rh_RefCount = 1, rh_Hash = hash_file\<rparr>,
      \<lparr>rh_Base = \<lparr>sh_Size = [120, 0, 0, 0, 0, 0, 0], sh_Flags = 0x02, sh_Offset = 278,
                  sh_OriginalSize = 120\<rparr>,
       rh_PartNumber = 1, rh_RefCount = 1, rh_Hash = hash_another\<rparr>]"

definition example_parse :: "stream \<Rightarrow> RESHDR_DISK list option" where
  "example_parse st = Some example_entries"

definition example_fh :: bytes where
  "example_fh = WIM_IMAGE_TAG"

definition file_resource :: Resource where
  "file_resource =
     \<lparr>r_size = 70, r_flags = 0, r_offset = 208, r_original_size = 70,
      r_part_number = Some 1, r_reference_count = Some 1, r_hash = Some hash_file\<rparr>"

definition metadata_resource :: Resource where
  "metadata_resource =
     \<lparr>r_size = 120, r_flags = 0x02, r_offset = 278, r_original_size = 120,
      r_part_number = Some 1, r_reference_count = Some 1, r_hash = Some hash_another\<rparr>"

definition example_wim :: WIM where
  "example_wim =
     \<lparr>wim_fh = example_fh, wim_header = example_header,
      resource_table = [(Some hash_file, file_resource), (Some hash_another, metadata_resource)],
      wim_images = [metadata_resource]\<rparr>"

text \<open>
  The directory tree of the test image, without the file with two streams: \<^verbatim>\<open>file.txt\<close>,
  the directory \<^verbatim>\<open>dir\<close> holding \<^verbatim>\<open>another.txt\<close>, and the mount point \<^verbatim>\<open>link.txt\<close>;
  \<open>orphan_entry\<close> names a hash that no resource of the archive has.
\<close>

definition file_entry :: DirectoryEntry where
  "file_entry = DirectoryEntry (Some ''file.txt'') 0x20 0 [[] \<mapsto> hash_file] []"

definition another_entry :: DirectoryEntry where
  "another_entry = DirectoryEntry (Some ''another.txt'') 0x20 0 [[] \<mapsto> hash_another] []"

definition dir_entry :: DirectoryEntry where
  "dir_entry = DirectoryEntry (Some ''dir'') 0x10 0 [[] \<mapsto> []] [another_entry]"

definition link_entry :: DirectoryEntry where
  "link_entry = DirectoryEntry (Some ''link.txt'') 0x420 0xA0000003 [[] \<mapsto> hash_ads] []"

definition orphan_entry :: DirectoryEntry where
  "orphan_entry = DirectoryEntry (Some ''ads.txt'') 0x20 0 [[] \<mapsto> hash_ads] []"

definition example_root :: DirectoryEntry where
  "example_root = DirectoryEntry None 0x10 0 [[] \<mapsto> []] [dir_entry, file_entry, link_entry]"

text \<open>A security block of two entries, the first of length zero.\<close>

definition sb_header_ex :: SECURITYBLOCK_DISK where
  "sb_header_ex = \<lparr>TotalLength = 24, NumEntries = 2, EntryLength = [0, 4]\<rparr>"

definition sb_content_ex :: bytes where
  "sb_content_ex = [24, 0, 0, 0, 2, 0, 0, 0, 0, 0, 0, 0, 4, 0, 0, 0,
                    0xAA, 0xBB, 0xCC, 0xDD, 0, 0, 0, 0]"

definition example_image :: Image where
  "example_image =
     \<lparr>security = \<lparr>sb_header = sb_header_ex, descriptors = [[0xAA, 0xBB, 0xCC, 0xDD]]\<rparr>,
      root_entry = example_root\<rparr>"

text \<open>
  The header of the example archive with the \<open>SPANNED\<close> resource flag set in the short
  header of its offset table; tag, version and header flags are unchanged.
\<close>

definition spanned_table_header :: WIMHEADER where
  "spanned_table_header =
     example_header
       \<lparr>OffsetTable := \<lparr>sh_Size = [100, 0, 0, 0, 0, 0, 0], sh_Flags = 0x08, sh_Offset = 400,
                        sh_OriginalSize = 100\<rparr>\<rparr>"

text \<open>A compressed resource of one chunk of 8192 bytes, in two compressed bytes.\<close>

definition one_chunk_stream :: CompressedStream where
  "one_chunk_stream =
     \<lparr>cs_fh = [1, 2], cs_offset = 0, cs_compressed_size = 2, cs_original_size = 8192,
      cs_decompressor = expand4k, cs_chunks = [0]\<rparr>"

section \<open>Directory entries: kinds\<close>

lemma both_bits_not_dir:
  "(a OR FILE_ATTRIBUTE_DIRECTORY OR FILE_ATTRIBUTE_REPARSE_POINT)
      AND (FILE_ATTRIBUTE_DIRECTORY OR FILE_ATTRIBUTE_REPARSE_POINT) \<noteq> FILE_ATTRIBUTE_DIRECTORY"
proof
  assume h: "(a OR FILE_ATTRIBUTE_DIRECTORY OR FILE_ATTRIBUTE_REPARSE_POINT)
      AND (FILE_ATTRIBUTE_DIRECTORY OR FILE_ATTRIBUTE_REPARSE_POINT) = FILE_ATTRIBUTE_DIRECTORY"
  have "bit ((a OR FILE_ATTRIBUTE_DIRECTORY OR FILE_ATTRIBUTE_REPARSE_POINT)
      AND (FILE_ATTRIBUTE_DIRECTORY OR FILE_ATTRIBUTE_REPARSE_POINT)) (10::nat)"
    by (simp add: bit_simps FILE_ATTRIBUTE_DIRECTORY_def FILE_ATTRIBUTE_REPARSE_POINT_def)
  moreover have "\<not> bit FILE_ATTRIBUTE_DIRECTORY (10::nat)"
    by (simp add: FILE_ATTRIBUTE_DIRECTORY_def bit_simps)
  ultimately show False using h by simp
qed

text \<open>
  Claim C7. An entry is a directory exactly when its attributes, masked with
  \<open>DIRECTORY | REPARSE_POINT = 0x410\<close>, equal \<open>DIRECTORY = 0x10\<close>; \<open>is_file\<close> is the
  negation of \<open>is_dir\<close>, so exactly one of the two holds for every entry; and an entry
  whose attributes have both the \<open>DIRECTORY\<close> and the \<open>REPARSE_POINT\<close> bit, whatever the
  other bits \<open>a\<close>, is not a directory.
\<close>

theorem is_dir_xor_is_file:
  "(is_dir e \<longleftrightarrow> Attributes e AND (0x10 OR 0x400) = 0x10)
   \<and> (is_file e \<longleftrightarrow> \<not> is_dir e)
   \<and> (is_dir e \<noteq> is_file e)
   \<and> \<not> is_dir (DirectoryEntry nm (a OR FILE_ATTRIBUTE_DIRECTORY OR FILE_ATTRIBUTE_REPARSE_POINT)
                  tag ss children)"
  using both_bits_not_dir [of a]
  by (simp add: is_dir_def is_file_def FILE_ATTRIBUTE_DIRECTORY_def FILE_ATTRIBUTE_REPARSE_POINT_def)

section \<open>Reparse points\<close>

lemma getattr_tag_header: "rp_getattr rp ''tag_header'' = Inl AttributeError"
  by (simp add: rp_getattr_def)

lemma print_name_guarded:
  "print_name decode rp =
     (case rp_info rp of
        None \<Rightarrow> Inr None
      | Some info \<Rightarrow> Inr (Some (name_at decode rp (PrintNameOffset info) (PrintNameLength info))))"
  by (simp add: print_name_def rp_getattr_def split: option.splits)

text \<open>
  Claim C8. The claim is that \<open>substitute_name\<close> is guarded on the parsed info structure,
  returns \<open>None\<close> for a tag that is neither \<open>MOUNT_POINT\<close> nor \<open>SYMLINK\<close>, returns the decoded
  name otherwise, and never fails for lack of the guard attribute. The property reads
  \<^verbatim>\<open>self.tag_header\<close>, an attribute that no \<^verbatim>\<open>ReparsePoint\<close> has: for every tag and every
  buffer, the access on the constructed object raises \<^verbatim>\<open>AttributeError\<close>. (Its sibling
  \<open>print_name\<close> tests \<^verbatim>\<open>self.info\<close> and behaves as the claim describes, lemma
  \<open>print_name_guarded\<close>.)
\<close>

theorem substitute_name_raises:
  "substitute_name decode (ReparsePoint_init parse_mount_point parse_symlink tag content)
     = Inl AttributeError"
  by (simp add: substitute_name_def getattr_tag_header)

section \<open>Archive construction\<close>

lemma read_resource_table_not_InvalidHeader:
  "read_resource_table parse dm fh header \<noteq> Inl InvalidHeaderError"
  by (auto simp: read_resource_table_def Resource_open_def CompressedStream_init_def Let_def
        struct_unpack_def split: sum.splits option.splits if_splits prod.splits)

lemma Resource_open_unsupported:
  "Resource_open dm fh header r = Inl NotImplementedError
     \<longleftrightarrow> is_spanned r \<or> (is_compressed r \<and> dm (Flags header AND 0xFFFF0000) = None)"
  by (auto simp: Resource_open_def CompressedStream_init_def Let_def struct_unpack_def
        split: sum.splits option.splits if_splits prod.splits)

lemma read_resource_table_unsupported:
  "read_resource_table parse dm fh header = Inl NotImplementedError
     \<longleftrightarrow> Resource_open dm fh header (from_short_header (OffsetTable header))
           = Inl NotImplementedError"
  by (simp add: read_resource_table_def split: sum.splits option.splits)

lemma example_table: "read_resource_table example_parse example_dmap example_fh example_header
    = Inr ([(Some hash_file, file_resource), (Some hash_another, metadata_resource)],
           [metadata_resource])"
  by (simp add: read_resource_table_def Resource_open_def example_header_def is_spanned_def
      is_compressed_def is_metadata_def from_short_header_def from_header_def example_parse_def
      example_entries_def RESHDR_FLAG_SPANNED_def RESHDR_FLAG_COMPRESSED_def
      RESHDR_FLAG_METADATA_def file_resource_def metadata_resource_def hash_file_def
      hash_another_def Let_def)

text \<open>
  Claim C4, as stated, fails: construction can fail with \<^verbatim>\<open>NotImplementedError\<close> (the
  "Unsupported" kind) although the tag is right, the version is \<open>0x00010d00\<close> and the
  \<open>SPANNED\<close> flag of the header is clear. With the \<open>SPANNED\<close> resource flag set in the short
  header of the offset table, \<^verbatim>\<open>_read_resource_table\<close> opens that resource and
  \<^verbatim>\<open>Resource.open\<close> raises.
\<close>

theorem WIM_init_unsupported_offset_table:
  "ImageTag spanned_table_header = WIM_IMAGE_TAG
   \<and> Version spanned_table_header = VERSION_DEFAULT
   \<and> Flags spanned_table_header AND HEADER_FLAG_SPANNED = 0
   \<and> WIM_init example_parse example_dmap example_fh spanned_table_header
       = Inl NotImplementedError"
  by (simp add: WIM_init_def header_check_def read_resource_table_def Resource_open_def
      spanned_table_header_def example_header_def HEADER_FLAG_SPANNED_def is_spanned_def
      from_short_header_def RESHDR_FLAG_SPANNED_def)

text \<open>
  Claim C4, amended. Construction fails with \<^verbatim>\<open>InvalidHeaderError\<close> exactly when the image
  tag of the header is not \<^verbatim>\<open>MSWIM\0\0\0\<close>. Given a correct tag, it fails with
  \<^verbatim>\<open>NotImplementedError\<close> exactly when the version is not \<open>0x00010d00\<close>, or the \<open>SPANNED\<close>
  flag of the header is set, or opening the offset-table resource is unsupported: that
  resource has the \<open>SPANNED\<close> resource flag, or it is compressed and the compression
  algorithm of the header has no decompressor. When the version is right and the \<open>SPANNED\<close>
  flag of the header is clear, construction proceeds to read the resource table: its
  outcome is that of \<open>read_resource_table\<close>, an archive when that succeeds.
\<close>

theorem WIM_init_failures:
  "(WIM_init parse dm fh header = Inl InvalidHeaderError \<longleftrightarrow> ImageTag header \<noteq> WIM_IMAGE_TAG)
   \<and> (ImageTag header = WIM_IMAGE_TAG \<longrightarrow>
        (WIM_init parse dm fh header = Inl NotImplementedError
           \<longleftrightarrow> Version header \<noteq> VERSION_DEFAULT
               \<or> Flags header AND HEADER_FLAG_SPANNED \<noteq> 0
               \<or> is_spanned (from_short_header (OffsetTable header))
               \<or> (is_compressed (from_short_header (OffsetTable header))
                    \<and> dm (Flags header AND 0xFFFF0000) = None)))
   \<and> (ImageTag header = WIM_IMAGE_TAG \<and> Version header = VERSION_DEFAULT
        \<and> Flags header AND HEADER_FLAG_SPANNED = 0 \<longrightarrow>
        WIM_init parse dm fh header =
          (case read_resource_table parse dm fh header of
             Inl e \<Rightarrow> Inl e
           | Inr (table, images) \<Rightarrow>
               Inr \<lparr>wim_fh = fh, wim_header = header, resource_table = table,
                    wim_images = images\<rparr>))"
proof (intro conjI impI)
  show "WIM_init parse dm fh header = Inl InvalidHeaderError \<longleftrightarrow> ImageTag header \<noteq> WIM_IMAGE_TAG"
    using read_resource_table_not_InvalidHeader [of parse dm fh header]
    by (auto simp: WIM_init_def header_check_def split: sum.splits option.splits prod.splits)
next
  assume tag: "ImageTag header = WIM_IMAGE_TAG"
  let ?ot = "from_short_header (OffsetTable header)"
  show "WIM_init parse dm fh header = Inl NotImplementedError
           \<longleftrightarrow> Version header \<noteq> VERSION_DEFAULT
               \<or> Flags header AND HEADER_FLAG_SPANNED \<noteq> 0
               \<or> is_spanned ?ot
               \<or> (is_compressed ?ot \<and> dm (Flags header AND 0xFFFF0000) = None)"
  proof (cases "header_check header")
    case None
    then have ok: "Version header = VERSION_DEFAULT" "Flags header AND HEADER_FLAG_SPANNED = 0"
      by (auto simp: header_check_def split: if_splits)
    have "WIM_init parse dm fh header = Inl NotImplementedError
            \<longleftrightarrow> read_resource_table parse dm fh header = Inl NotImplementedError"
      using None by (auto simp: WIM_init_def split: sum.splits prod.splits)
    then show ?thesis
      using ok by (simp add: read_resource_table_unsupported Resource_open_unsupported)
  next
    case (Some e)
    then have "e = NotImplementedError"
      and "Version header \<noteq> VERSION_DEFAULT \<or> Flags header AND HEADER_FLAG_SPANNED \<noteq> 0"
      using tag by (auto simp: header_check_def split: if_splits)
    then have "WIM_init parse dm fh header = Inl NotImplementedError"
      using Some by (simp add: WIM_init_def)
    then show ?thesis
      using \<open>Version header \<noteq> VERSION_DEFAULT \<or> Flags header AND HEADER_FLAG_SPANNED \<noteq> 0\<close>
      by blast
  qed
next
  assume "ImageTag header = WIM_IMAGE_TAG \<and> Version header = VERSION_DEFAULT
        \<and> Flags header AND HEADER_FLAG_SPANNED = 0"
  then have "header_check header = None" by (simp add: header_check_def)
  then show "WIM_init parse dm fh header =
          (case read_resource_table parse dm fh header of
             Inl e \<Rightarrow> Inl e
           | Inr (table, images) \<Rightarrow>
               Inr \<lparr>wim_fh = fh, wim_header = header, resource_table = table,
                    wim_images = images\<rparr>)"
    by (simp add: WIM_init_def)
qed

text \<open>
  The example archive has a right tag and version, no \<open>SPANNED\<close> flag and an uncompressed,
  unspanned offset table, and it is built; with the \<open>SPANNED\<close> flag set in the header, or
  in the short header of the offset table, construction fails with
  \<^verbatim>\<open>NotImplementedError\<close>; with another tag it fails with \<^verbatim>\<open>InvalidHeaderError\<close>.
\<close>

theorem WIM_init_failures_witness:
  "ImageTag example_header = WIM_IMAGE_TAG
   \<and> Version example_header = VERSION_DEFAULT
   \<and> Flags example_header AND HEADER_FLAG_SPANNED = 0
   \<and> WIM_init example_parse example_dmap example_fh example_header = Inr example_wim
   \<and> WIM_init example_parse example_dmap example_fh example_header \<noteq> Inl NotImplementedError
   \<and> ImageTag (example_header\<lparr>Flags := 0x0002000A\<rparr>) = WIM_IMAGE_TAG
   \<and> WIM_init example_parse example_dmap example_fh (example_header\<lparr>Flags := 0x0002000A\<rparr>)
        = Inl NotImplementedError
   \<and> ImageTag spanned_table_header = WIM_IMAGE_TAG
   \<and> is_spanned (from_short_header (OffsetTable spanned_table_header))
   \<and> WIM_init example_parse example_dmap example_fh spanned_table_header
        = Inl NotImplementedError
   \<and> WIM_init example_parse example_dmap example_fh (example_header\<lparr>ImageTag := []\<rparr>)
        = Inl InvalidHeaderError"
proof -
  note t = WIM_init_failures [of example_parse example_dmap example_fh]
  have ok: "ImageTag example_header = WIM_IMAGE_TAG" "Version example_header = VERSION_DEFAULT"
      "Flags example_header AND HEADER_FLAG_SPANNED = 0"
    by (simp_all add: example_header_def HEADER_FLAG_SPANNED_def)
  have ot: "\<not> is_spanned (from_short_header (OffsetTable example_header))"
      "\<not> is_compressed (from_short_header (OffsetTable example_header))"
    by (simp_all add: example_header_def from_short_header_def is_spanned_def is_compressed_def
          RESHDR_FLAG_SPANNED_def RESHDR_FLAG_COMPRESSED_def)
  have built: "WIM_init example_parse example_dmap example_fh example_header = Inr example_wim"
    using t [of example_header] ok example_table by (simp add: example_wim_def)
  have no: "WIM_init example_parse example_dmap example_fh example_header \<noteq> Inl NotImplementedError"
    using t [of example_header, THEN conjunct2, THEN conjunct1] ok ot by blast
  have sp: "ImageTag (example_header\<lparr>Flags := 0x0002000A\<rparr>) = WIM_IMAGE_TAG"
      "Flags (example_header\<lparr>Flags := 0x0002000A\<rparr>) AND HEADER_FLAG_SPANNED \<noteq> 0"
    by (simp_all add: example_header_def HEADER_FLAG_SPANNED_def)
  have f1: "WIM_init example_parse example_dmap example_fh (example_header\<lparr>Flags := 0x0002000A\<rparr>)
        = Inl NotImplementedError"
    using t [of "example_header\<lparr>Flags := 0x0002000A\<rparr>"] sp by blast
  have st: "ImageTag spanned_table_header = WIM_IMAGE_TAG"
      "is_spanned (from_short_header (OffsetTable spanned_table_header))"
    by (simp_all add: spanned_table_header_def example_header_def from_short_header_def
          is_spanned_def RESHDR_FLAG_SPANNED_def)
  have f2: "WIM_init example_parse example_dmap example_fh spanned_table_header
        = Inl NotImplementedError"
    using t [of spanned_table_header] st by blast
  have tg: "ImageTag (example_header\<lparr>ImageTag := []\<rparr>) \<noteq> WIM_IMAGE_TAG"
    by (simp add: WIM_IMAGE_TAG_def)
  have f3: "WIM_init example_parse example_dmap example_fh (example_header\<lparr>ImageTag := []\<rparr>)
        = Inl InvalidHeaderError"
    using t [of "example_header\<lparr>ImageTag := []\<rparr>"] tg by blast
  show ?thesis by (intro conjI) (fact ok built no sp(1) f1 st f2 f3)+
qed

section \<open>Opening a stream of a directory entry\<close>

lemma dict_set_keys: "fst ` set (dict_set k v t) = insert k (fst ` set t)"
  by (induction k v t rule: dict_set.induct) (simp_all add: insert_commute)

lemma dict_set_distinct: "distinct (map fst t) \<Longrightarrow> distinct (map fst (dict_set k v t))"
  by (induction k v t rule: dict_set.induct) (simp_all add: dict_set_keys)

lemma dict_set_subset: "set (dict_set k v t) \<subseteq> insert (k, v) (set t)"
  by (induction k v t rule: dict_set.induct) auto

text \<open>
  The invariant of the resource table: its keys are distinct, and every resource is stored
  under its own hash, which \<open>from_header\<close> has set.
\<close>

lemma table_loop_keys:
  "distinct (map fst t) \<Longrightarrow> \<forall>(k, r) \<in> set t. k = r_hash r \<and> k \<noteq> None \<Longrightarrow>
   distinct (map fst (fst (table_loop hs t imgs)))
   \<and> (\<forall>(k, r) \<in> set (fst (table_loop hs t imgs)). k = r_hash r \<and> k \<noteq> None)"
proof (induction hs arbitrary: t imgs)
  case Nil
  then show ?case by simp
next
  case (Cons h hs)
  let ?r = "from_header h"
  let ?t = "dict_set (r_hash ?r) ?r t"
  have d: "distinct (map fst ?t)" using Cons.prems(1) by (rule dict_set_distinct)
  have "r_hash ?r \<noteq> None" by (simp add: from_header_def)
  then have k: "\<forall>(k, r) \<in> set ?t. k = r_hash r \<and> k \<noteq> None"
    using Cons.prems(2) dict_set_subset [of "r_hash ?r" ?r t] by auto
  show ?case using Cons.IH [OF d k] by (simp add: Let_def)
qed

lemma WIM_init_table:
  assumes "WIM_init parse dm fh header = Inr wim"
  shows "distinct (map fst (resource_table wim))"
    and "\<forall>(k, r) \<in> set (resource_table wim). k = r_hash r \<and> k \<noteq> None"
    and "wim_fh wim = fh" and "wim_header wim = header"
proof -
  from assms obtain table images where
    rt: "read_resource_table parse dm fh header = Inr (table, images)" and
    w0: "wim = \<lparr>wim_fh = fh, wim_header = header, resource_table = table,
              wim_images = images\<rparr>"
    by (auto simp: WIM_init_def split: option.splits sum.splits)
  from rt obtain entries where "table_loop entries [] [] = (table, images)"
    by (auto simp: read_resource_table_def split: option.splits sum.splits)
  then have w: "wim = \<lparr>wim_fh = fh, wim_header = header,
             resource_table = fst (table_loop entries [] []),
             wim_images = snd (table_loop entries [] [])\<rparr>"
    using w0 by simp
  have "distinct (map fst ([] :: (bytes option \<times> Resource) list))" by simp
  moreover have "\<forall>(k, r) \<in> set ([] :: (bytes option \<times> Resource) list). k = r_hash r \<and> k \<noteq> None"
    by simp
  ultimately have "distinct (map fst (fst (table_loop entries [] [])))
     \<and> (\<forall>(k, r) \<in> set (fst (table_loop entries [] [])). k = r_hash r \<and> k \<noteq> None)"
    by (rule table_loop_keys)
  then show "distinct (map fst (resource_table wim))"
    and "\<forall>(k, r) \<in> set (resource_table wim). k = r_hash r \<and> k \<noteq> None"
    by (simp_all add: w)
  show "wim_fh wim = fh" and "wim_header wim = header" by (simp_all add: w)
qed

lemma find_in_table:
  "distinct (map fst t) \<Longrightarrow> \<forall>(k, r) \<in> set t. k = r_hash r \<Longrightarrow> r \<in> snd ` set t \<Longrightarrow>
   r_hash r = h \<Longrightarrow> find (\<lambda>x. r_hash x = h) (map snd t) = Some r"
proof (induction t)
  case Nil
  then show ?case by simp
next
  case (Cons p t)
  obtain k r0 where p: "p = (k, r0)" by (cases p)
  show ?case
  proof (cases "r_hash r0 = h")
    case True
    have "r = r0"
    proof (rule ccontr)
      assume "r \<noteq> r0"
      then have "r \<in> snd ` set t" using Cons.prems(3) p by auto
      then obtain k' where "(k', r) \<in> set t" by auto
      moreover from this have "k' = r_hash r" using Cons.prems(2) by auto
      ultimately have "h \<in> fst ` set t" using Cons.prems(4) by force
      moreover have "k = h" using Cons.prems(2) p True by auto
      ultimately show False using Cons.prems(1) p by auto
    qed
    then show ?thesis using True p by simp
  next
    case False
    then have "r \<noteq> r0" using Cons.prems(4) by auto
    then have "r \<in> snd ` set t" using Cons.prems(3) p by auto
    then show ?thesis using Cons.IH Cons.prems False p by auto
  qed
qed

lemma find_absent: "\<forall>x \<in> set xs. \<not> P x \<Longrightarrow> find P xs = None"
  by (induction xs) auto

text \<open>
  Claim C5. For an archive \<open>wim\<close> that construction has built, a directory entry \<open>e\<close> and a
  stream name \<open>nm\<close>: when \<open>nm\<close> is not a key of \<open>e.streams\<close>, \<open>e.open(nm)\<close> fails with
  \<^verbatim>\<open>FileNotFoundError\<close>; when it is a key and no resource of the archive has that hash,
  it fails with \<^verbatim>\<open>FileNotFoundError\<close>; when a resource has that hash, the result is that
  resource opened. A missing key is not taken for a hash: the \<^verbatim>\<open>None\<close> that
  \<^verbatim>\<open>streams.get\<close> returns for it equals the hash of no resource of the table.
\<close>

theorem DirectoryEntry_open_outcomes:
  assumes "WIM_init parse dm fh header = Inr wim"
  shows "(streams e nm = None \<longrightarrow> DirectoryEntry_open dm wim e nm = Inl FileNotFoundError)
    \<and> (\<forall>h. streams e nm = Some h \<and> (\<forall>r \<in> set (resources wim). r_hash r \<noteq> Some h)
          \<longrightarrow> DirectoryEntry_open dm wim e nm = Inl FileNotFoundError)
    \<and> (\<forall>h r. streams e nm = Some h \<and> r \<in> set (resources wim) \<and> r_hash r = Some h
          \<longrightarrow> DirectoryEntry_open dm wim e nm = Resource_open dm fh header r)"
proof (intro conjI allI impI)
  note t = WIM_init_table [OF assms]
  have nn: "\<forall>r \<in> set (resources wim). r_hash r \<noteq> None"
    using t(2) by (force simp: resources_def)
  {
    assume "streams e nm = None"
    moreover have "find (\<lambda>r. r_hash r = None) (resources wim) = None"
      using nn by (intro find_absent) simp
    ultimately show "DirectoryEntry_open dm wim e nm = Inl FileNotFoundError"
      by (simp add: DirectoryEntry_open_def builtin_hash_is_None_def)
  next
    fix h
    assume a: "streams e nm = Some h \<and> (\<forall>r \<in> set (resources wim). r_hash r \<noteq> Some h)"
    then have "find (\<lambda>r. r_hash r = Some h) (resources wim) = None"
      by (intro find_absent) simp
    then show "DirectoryEntry_open dm wim e nm = Inl FileNotFoundError"
      using a by (simp add: DirectoryEntry_open_def builtin_hash_is_None_def)
  next
    fix h r
    assume a: "streams e nm = Some h \<and> r \<in> set (resources wim) \<and> r_hash r = Some h"
    have k: "\<forall>(k, r) \<in> set (resource_table wim). k = r_hash r" using t(2) by auto
    have "r \<in> snd ` set (resource_table wim)" using a by (simp add: resources_def)
    then have "find (\<lambda>x. r_hash x = Some h) (map snd (resource_table wim)) = Some r"
      using find_in_table [OF t(1) k] a by simp
    then show "DirectoryEntry_open dm wim e nm = Resource_open dm fh header r"
      using a t(3,4) by (simp add: DirectoryEntry_open_def builtin_hash_is_None_def resources_def)
  }
qed

lemma example_header_ok: "header_check example_header = None"
  by (simp add: header_check_def example_header_def HEADER_FLAG_SPANNED_def)

lemma example_wim_built:
  "WIM_init example_parse example_dmap example_fh example_header = Inr example_wim"
  by (simp add: WIM_init_def example_header_ok example_table example_wim_def)

lemma hashes_differ: "hash_file \<noteq> hash_ads" "hash_another \<noteq> hash_ads" "hash_file \<noteq> hash_another"
  by (simp_all add: hash_file_def hash_ads_def hash_another_def)

text \<open>
  In the example archive: \<^verbatim>\<open>file.txt\<close> has no stream \<^verbatim>\<open>spookystream\<close>; the hash of the
  default stream of \<open>orphan_entry\<close> is the hash of no resource; the default stream of
  \<^verbatim>\<open>file.txt\<close> is the uncompressed resource of 70 bytes at offset 208.
\<close>

theorem DirectoryEntry_open_outcomes_witness:
  "WIM_init example_parse example_dmap example_fh example_header = Inr example_wim
   \<and> streams file_entry ''spookystream'' = None
   \<and> DirectoryEntry_open example_dmap example_wim file_entry ''spookystream''
       = Inl FileNotFoundError
   \<and> streams orphan_entry [] = Some hash_ads
   \<and> map r_hash (resources example_wim) = [Some hash_file, Some hash_another]
   \<and> DirectoryEntry_open example_dmap example_wim orphan_entry [] = Inl FileNotFoundError
   \<and> streams file_entry [] = Some hash_file
   \<and> r_hash file_resource = Some hash_file
   \<and> DirectoryEntry_open example_dmap example_wim file_entry [] = Inr (Relative example_fh 208 70)"
proof -
  note t = DirectoryEntry_open_outcomes [OF example_wim_built]
  have s1: "streams file_entry ''spookystream'' = None" by (simp add: file_entry_def)
  have s2: "streams orphan_entry [] = Some hash_ads" by (simp add: orphan_entry_def)
  have s3: "streams file_entry [] = Some hash_file" by (simp add: file_entry_def)
  have rs: "resources example_wim = [file_resource, metadata_resource]"
    by (simp add: resources_def example_wim_def)
  have hs: "r_hash file_resource = Some hash_file" "r_hash metadata_resource = Some hash_another"
    by (simp_all add: file_resource_def metadata_resource_def)
  have o1: "DirectoryEntry_open example_dmap example_wim file_entry ''spookystream''
       = Inl FileNotFoundError"
    using t [of file_entry "''spookystream''"] s1 by blast
  have "\<forall>r \<in> set (resources example_wim). r_hash r \<noteq> Some hash_ads"
    using hashes_differ by (simp add: rs hs)
  then have o2: "DirectoryEntry_open example_dmap example_wim orphan_entry [] = Inl FileNotFoundError"
    using t [of orphan_entry "[]"] s2 by blast
  have "file_resource \<in> set (resources example_wim)" by (simp add: rs)
  then have "DirectoryEntry_open example_dmap example_wim file_entry []
       = Resource_open example_dmap example_fh example_header file_resource"
    using t [of file_entry "[]"] s3 hs(1) by blast
  moreover have "Resource_open example_dmap example_fh example_header file_resource
       = Inr (Relative example_fh 208 70)"
    by (simp add: Resource_open_def file_resource_def is_spanned_def is_compressed_def
        RESHDR_FLAG_SPANNED_def RESHDR_FLAG_COMPRESSED_def)
  ultimately have o3: "DirectoryEntry_open example_dmap example_wim file_entry []
       = Inr (Relative example_fh 208 70)"
    by simp
  show ?thesis using example_wim_built s1 s2 s3 o1 o2 o3 hs by (simp add: rs)
qed

section \<open>Path lookup\<close>

lemma replace_slash_idem: "replace_slash (replace_slash p) = replace_slash p"
  by (simp add: replace_slash_def backslash_def)

lemma get_loop_append:
  "get_loop e (xs @ ys) = (case get_loop e xs of Inl err \<Rightarrow> Inl err | Inr d \<Rightarrow> get_loop d ys)"
  by (induction xs arbitrary: e) (auto split: sum.splits option.splits)

lemma get_loop_no_child:
  "part \<noteq> [] \<Longrightarrow> is_dir d \<Longrightarrow> \<forall>c \<in> set (subdir d). name c \<noteq> Some part \<Longrightarrow>
   get_loop d (part # rest) = Inl FileNotFoundError"
  by (simp add: iterdir_def find_absent)

lemma get_loop_not_dir:
  "\<not> is_dir d \<Longrightarrow> \<exists>part \<in> set rest. part \<noteq> [] \<Longrightarrow> get_loop d rest = Inl NotADirectoryError"
  by (induction rest) (auto simp: iterdir_def)

text \<open>
  When the loop ends with \<^verbatim>\<open>FileNotFoundError\<close>, it has reached a directory \<open>d\<close> through a
  prefix of the parts, and the next non-empty part is the name of no child of \<open>d\<close>.
\<close>

lemma get_loop_FileNotFound:
  "get_loop e parts = Inl FileNotFoundError \<Longrightarrow>
   \<exists>pre part rest d. parts = pre @ part # rest \<and> part \<noteq> [] \<and> get_loop e pre = Inr d
      \<and> is_dir d \<and> (\<forall>c \<in> set (subdir d). name c \<noteq> Some part)"
proof (induction parts arbitrary: e)
  case Nil
  then show ?case by simp
next
  case (Cons p ps)
  show ?case
  proof (cases "p = []")
    case True
    then have "get_loop e ps = Inl FileNotFoundError" using Cons.prems by simp
    from Cons.IH [OF this] obtain pre part rest d where
      h: "ps = pre @ part # rest" "part \<noteq> []" "get_loop e pre = Inr d" "is_dir d"
         "\<forall>c \<in> set (subdir d). name c \<noteq> Some part" by blast
    have "p # ps = (p # pre) @ part # rest" using h(1) by simp
    moreover have "get_loop e (p # pre) = Inr d" using True h(3) by simp
    ultimately show ?thesis using h(2,4,5) by blast
  next
    case False
    then have dir: "is_dir e" using Cons.prems by (auto simp: iterdir_def split: if_splits)
    show ?thesis
    proof (cases "find (\<lambda>child. name child = Some p) (subdir e)")
      case None
      then have "\<forall>c \<in> set (subdir e). name c \<noteq> Some p" by (simp add: find_None_iff)
      moreover have "p # ps = [] @ p # ps" by simp
      moreover have "get_loop e [] = Inr e" by simp
      ultimately show ?thesis using False dir by blast
    next
      case (Some child)
      then have "get_loop child ps = Inl FileNotFoundError"
        using Cons.prems False dir by (simp add: iterdir_def)
      from Cons.IH [OF this] obtain pre part rest d where
        h: "ps = pre @ part # rest" "part \<noteq> []" "get_loop child pre = Inr d" "is_dir d"
           "\<forall>c \<in> set (subdir d). name c \<noteq> Some part" by blast
      have "p # ps = (p # pre) @ part # rest" using h(1) by simp
      moreover have "get_loop e (p # pre) = Inr d"
        using False dir Some h(3) by (simp add: iterdir_def)
      ultimately show ?thesis using h(2,4,5) by blast
    qed
  qed
qed

text \<open>
  Claim C6. \<open>get\<close> does not depend on the separator: for every image, starting entry and
  path \<open>p\<close>, \<open>get(p)\<close> gives the same result (entry or error) as \<open>get\<close> of \<open>p\<close> with every
  forward slash replaced by a backslash; in particular \<^verbatim>\<open>get("dir/another.txt")\<close> and
  \<^verbatim>\<open>get("dir\\another.txt")\<close> agree. And when the parts before a non-empty part of the
  path lead to a directory \<open>d\<close> none of whose children has that part as its name, \<open>get\<close>
  fails with \<^verbatim>\<open>FileNotFoundError\<close>.
\<close>

theorem get_separator_insensitive:
  "Image_get img p entry = Image_get img (replace_slash p) entry
   \<and> Image_get img ''dir/another.txt'' entry
       = Image_get img (''dir'' @ backslash # ''another.txt'') entry
   \<and> (split_on backslash (replace_slash p) = pre @ part # rest
        \<and> get_loop (case entry of None \<Rightarrow> root_entry img | Some e \<Rightarrow> e) pre = Inr d
        \<and> part \<noteq> [] \<and> is_dir d \<and> (\<forall>c \<in> set (subdir d). name c \<noteq> Some part)
      \<longrightarrow> Image_get img p entry = Inl FileNotFoundError)"
proof (intro conjI impI)
  show "Image_get img p entry = Image_get img (replace_slash p) entry"
    by (simp add: Image_get_def replace_slash_idem)
  show "Image_get img ''dir/another.txt'' entry
       = Image_get img (''dir'' @ backslash # ''another.txt'') entry"
    by (simp add: Image_get_def replace_slash_def backslash_def)
  assume a: "split_on backslash (replace_slash p) = pre @ part # rest
        \<and> get_loop (case entry of None \<Rightarrow> root_entry img | Some e \<Rightarrow> e) pre = Inr d
        \<and> part \<noteq> [] \<and> is_dir d \<and> (\<forall>c \<in> set (subdir d). name c \<noteq> Some part)"
  then have "get_loop d (part # rest) = Inl FileNotFoundError"
    by (intro get_loop_no_child) simp_all
  then show "Image_get img p entry = Inl FileNotFoundError"
    using a by (simp add: Image_get_def get_loop_append)
qed

lemma example_kinds:
  "is_dir example_root" "is_dir dir_entry" "\<not> is_dir file_entry" "\<not> is_dir link_entry"
  "\<not> is_dir another_entry"
  by (simp_all add: is_dir_def example_root_def dir_entry_def file_entry_def link_entry_def
      another_entry_def FILE_ATTRIBUTE_DIRECTORY_def FILE_ATTRIBUTE_REPARSE_POINT_def)

lemma example_names:
  "name dir_entry = Some ''dir''" "name file_entry = Some ''file.txt''"
  "name link_entry = Some ''link.txt''" "name another_entry = Some ''another.txt''"
  "subdir example_root = [dir_entry, file_entry, link_entry]"
  "subdir dir_entry = [another_entry]" "root_entry example_image = example_root"
  by (simp_all add: example_root_def dir_entry_def file_entry_def link_entry_def
      another_entry_def example_image_def)

lemma example_splits:
  "split_on backslash (replace_slash ''dir/another.txt'') = [''dir'', ''another.txt'']"
  "split_on backslash (replace_slash ''dir/missing.txt'') = [''dir'', ''missing.txt'']"
  "split_on backslash (replace_slash ''file.txt/x'') = [''file.txt'', ''x'']"
  "split_on backslash (replace_slash ''nope'') = [''nope'']"
  by (simp_all add: replace_slash_def backslash_def)

lemma example_get_dir: "get_loop example_root [''dir''] = Inr dir_entry"
  by (simp add: iterdir_def example_kinds example_names)

lemma example_get_file: "get_loop example_root [''file.txt''] = Inr file_entry"
  by (simp add: iterdir_def example_kinds example_names)

text \<open>
  In the example image both spellings of \<^verbatim>\<open>dir/another.txt\<close> reach the same entry, and
  \<^verbatim>\<open>dir/missing.txt\<close>, whose second part names no child of \<^verbatim>\<open>dir\<close>, is not found.
\<close>

theorem get_separator_insensitive_witness:
  "split_on backslash (replace_slash ''dir/missing.txt'') = [''dir''] @ ''missing.txt'' # []
   \<and> get_loop (root_entry example_image) [''dir''] = Inr dir_entry
   \<and> is_dir dir_entry
   \<and> map name (subdir dir_entry) = [Some ''another.txt'']
   \<and> Image_get example_image ''dir/missing.txt'' None = Inl FileNotFoundError
   \<and> Image_get example_image ''dir/another.txt'' None = Inr another_entry
   \<and> Image_get example_image (''dir'' @ backslash # ''another.txt'') None = Inr another_entry"
proof -
  have sp: "split_on backslash (replace_slash ''dir/missing.txt'') = [''dir''] @ ''missing.txt'' # []"
    by (simp add: example_splits)
  have g: "get_loop (root_entry example_image) [''dir''] = Inr dir_entry"
    by (simp only: example_names example_get_dir)
  have g': "get_loop (case None of None \<Rightarrow> root_entry example_image | Some e \<Rightarrow> e) [''dir'']
             = Inr dir_entry"
    using g by simp
  have d: "is_dir dir_entry" by (rule example_kinds)
  have nm: "map name (subdir dir_entry) = [Some ''another.txt'']"
    by (simp add: example_names)
  have nc: "\<forall>c \<in> set (subdir dir_entry). name c \<noteq> Some ''missing.txt''"
    by (simp add: example_names)
  note t = get_separator_insensitive [where img = example_image and entry = None]
  have m: "Image_get example_image ''dir/missing.txt'' None = Inl FileNotFoundError"
    using t [where p = "''dir/missing.txt''" and pre = "[''dir'']" and part = "''missing.txt''"
               and rest = "[]" and d = dir_entry]
      sp g' nc d by blast
  have a: "Image_get example_image ''dir/another.txt'' None = Inr another_entry"
    by (simp add: Image_get_def example_splits example_names iterdir_def example_kinds)
  have eq: "Image_get example_image ''dir/another.txt'' None
              = Image_get example_image (''dir'' @ backslash # ''another.txt'') None"
    by (rule t [THEN conjunct2, THEN conjunct1])
  have b: "Image_get example_image (''dir'' @ backslash # ''another.txt'') None = Inr another_entry"
    by (rule trans [OF eq [symmetric] a])
  show ?thesis by (intro conjI) (fact sp g d nm m a b)+
qed

text \<open>
  Claim C10. When the parts of the path before some point resolve to an entry \<open>d\<close> that is
  not a directory and a non-empty part remains after them, \<open>get\<close> fails with
  \<^verbatim>\<open>NotADirectoryError\<close> (raised by \<open>iterdir\<close> on \<open>d\<close>), not with \<^verbatim>\<open>FileNotFoundError\<close>.
  \<^verbatim>\<open>FileNotFoundError\<close> is raised only when the parts before a non-empty part resolve to
  a directory none of whose children has that part as its name.
\<close>

theorem get_through_non_directory:
  "(split_on backslash (replace_slash p) = pre @ rest
      \<and> get_loop (case entry of None \<Rightarrow> root_entry img | Some e \<Rightarrow> e) pre = Inr d
      \<and> \<not> is_dir d \<and> (\<exists>part \<in> set rest. part \<noteq> [])
    \<longrightarrow> Image_get img p entry = Inl NotADirectoryError)
   \<and> (Image_get img p entry = Inl FileNotFoundError \<longrightarrow>
        (\<exists>pre part rest d. split_on backslash (replace_slash p) = pre @ part # rest
           \<and> part \<noteq> []
           \<and> get_loop (case entry of None \<Rightarrow> root_entry img | Some e \<Rightarrow> e) pre = Inr d
           \<and> is_dir d \<and> (\<forall>c \<in> set (subdir d). name c \<noteq> Some part)))"
proof (intro conjI impI)
  assume a: "split_on backslash (replace_slash p) = pre @ rest
      \<and> get_loop (case entry of None \<Rightarrow> root_entry img | Some e \<Rightarrow> e) pre = Inr d
      \<and> \<not> is_dir d \<and> (\<exists>part \<in> set rest. part \<noteq> [])"
  then have "get_loop d rest = Inl NotADirectoryError"
    by (intro get_loop_not_dir) simp_all
  then show "Image_get img p entry = Inl NotADirectoryError"
    using a by (simp add: Image_get_def get_loop_append)
next
  assume "Image_get img p entry = Inl FileNotFoundError"
  then have "get_loop (case entry of None \<Rightarrow> root_entry img | Some e \<Rightarrow> e)
               (split_on backslash (replace_slash p)) = Inl FileNotFoundError"
    by (simp add: Image_get_def)
  then show "\<exists>pre part rest d. split_on backslash (replace_slash p) = pre @ part # rest
           \<and> part \<noteq> []
           \<and> get_loop (case entry of None \<Rightarrow> root_entry img | Some e \<Rightarrow> e) pre = Inr d
           \<and> is_dir d \<and> (\<forall>c \<in> set (subdir d). name c \<noteq> Some part)"
    by (rule get_loop_FileNotFound)
qed

text \<open>
  In the example image \<^verbatim>\<open>file.txt/x\<close> goes through the file \<^verbatim>\<open>file.txt\<close> and fails with
  \<^verbatim>\<open>NotADirectoryError\<close>; \<^verbatim>\<open>nope\<close> is looked for in the root directory and is not found.
\<close>

theorem get_through_non_directory_witness:
  "split_on backslash (replace_slash ''file.txt/x'') = [''file.txt''] @ [''x'']
   \<and> get_loop (root_entry example_image) [''file.txt''] = Inr file_entry
   \<and> \<not> is_dir file_entry
   \<and> Image_get example_image ''file.txt/x'' None = Inl NotADirectoryError
   \<and> Image_get example_image ''nope'' None = Inl FileNotFoundError
   \<and> (\<exists>pre part rest d. split_on backslash (replace_slash ''nope'') = pre @ part # rest
         \<and> part \<noteq> [] \<and> get_loop (root_entry example_image) pre = Inr d \<and> is_dir d
         \<and> (\<forall>c \<in> set (subdir d). name c \<noteq> Some part))"
proof -
  note t = get_through_non_directory [where img = example_image and entry = None]
  have sp: "split_on backslash (replace_slash ''file.txt/x'') = [''file.txt''] @ [''x'']"
    by (simp add: example_splits)
  have g: "get_loop (root_entry example_image) [''file.txt''] = Inr file_entry"
    by (simp only: example_names example_get_file)
  have g': "get_loop (case None of None \<Rightarrow> root_entry example_image | Some e \<Rightarrow> e) [''file.txt'']
             = Inr file_entry"
    using g by simp
  have nd: "\<not> is_dir file_entry" by (rule example_kinds)
  have ex: "\<exists>part \<in> set [''x'']. part \<noteq> []" by simp
  have n: "Image_get example_image ''file.txt/x'' None = Inl NotADirectoryError"
    using t [where p = "''file.txt/x''" and pre = "[''file.txt'']" and rest = "[''x'']"
               and d = file_entry] sp g' ex nd
    by blast
  have f: "Image_get example_image ''nope'' None = Inl FileNotFoundError"
    by (simp add: Image_get_def example_splits example_names iterdir_def example_kinds)
  have e: "\<exists>pre part rest d. split_on backslash (replace_slash ''nope'') = pre @ part # rest
         \<and> part \<noteq> [] \<and> get_loop (root_entry example_image) pre = Inr d \<and> is_dir d
         \<and> (\<forall>c \<in> set (subdir d). name c \<noteq> Some part)"
    using t [where p = "''nope''"] f by simp
  show ?thesis by (intro conjI) (fact sp g nd n f e)+
qed

section \<open>Security descriptors\<close>

lemma fh_read_nat: "fh_read c pos (int k) = take k (drop pos c)"
  by (simp add: fh_read_def)

lemma filter_nonzero_id: "0 \<notin> set xs \<Longrightarrow> filter (\<lambda>n. n \<noteq> (0::nat)) xs = xs"
  by (induction xs) auto

lemma read_descriptors_length:
  "length (fst (read_descriptors c pos sizes ds)) = length ds + length (filter (\<lambda>n. n \<noteq> 0) sizes)"
  by (induction sizes arbitrary: pos ds) (simp_all add: Let_def)

lemma read_descriptors_exact:
  "pos + sum_list sizes \<le> length c \<Longrightarrow>
   map length (fst (read_descriptors c pos sizes ds)) = map length ds @ filter (\<lambda>n. n \<noteq> 0) sizes
   \<and> concat (fst (read_descriptors c pos sizes ds)) = concat ds @ take (sum_list sizes) (drop pos c)
   \<and> snd (read_descriptors c pos sizes ds) = pos + sum_list sizes"
proof (induction sizes arbitrary: pos ds)
  case Nil
  then show ?case by simp
next
  case (Cons sz rest)
  show ?case
  proof (cases "sz = 0")
    case True
    then show ?thesis using Cons.IH [of pos ds] Cons.prems by simp
  next
    case False
    let ?d = "fh_read c pos (int sz)"
    have d: "?d = take sz (drop pos c)" by (rule fh_read_nat)
    have len: "length ?d = sz" using Cons.prems by (simp add: d)
    have "pos + sz + sum_list rest \<le> length c" using Cons.prems by simp
    from Cons.IH [OF this, of "ds @ [?d]"]
    have ih: "map length (fst (read_descriptors c (pos + sz) rest (ds @ [?d])))
                = map length (ds @ [?d]) @ filter (\<lambda>n. n \<noteq> 0) rest"
      "concat (fst (read_descriptors c (pos + sz) rest (ds @ [?d])))
                = concat (ds @ [?d]) @ take (sum_list rest) (drop (pos + sz) c)"
      "snd (read_descriptors c (pos + sz) rest (ds @ [?d])) = pos + sz + sum_list rest"
      by simp_all
    have step: "read_descriptors c pos (sz # rest) ds
                 = read_descriptors c (pos + sz) rest (ds @ [?d])"
      using False len by (simp add: Let_def)
    have cat: "take sz (drop pos c) @ take (sum_list rest) (drop (pos + sz) c)
                 = take (sz + sum_list rest) (drop pos c)"
      by (simp add: take_add add.commute)
    show ?thesis
      using ih False len cat by (simp add: step d)
  qed
qed

text \<open>
  Claim C9, as stated, fails: a security block whose header declares two entry lengths,
  0 and 4, yields one descriptor, not two.
\<close>

theorem SecurityBlock_zero_length_counterexample:
  "length (EntryLength sb_header_ex) = NumEntries sb_header_ex
   \<and> NumEntries sb_header_ex = 2
   \<and> descriptors (fst (SecurityBlock_init sb_header_ex sb_content_ex 16)) = [[0xAA, 0xBB, 0xCC, 0xDD]]
   \<and> length (descriptors (fst (SecurityBlock_init sb_header_ex sb_content_ex 16)))
        \<noteq> NumEntries sb_header_ex"
  by (simp add: SecurityBlock_init_def sb_header_ex_def sb_content_ex_def fh_read_def Let_def)

text \<open>
  Claim C9, amended. Parsing a security block yields one descriptor for every entry length
  that is not zero, in the order of the header; an entry of length zero is skipped and
  yields no descriptor. When the stream holds the declared bytes after the header, the
  descriptors have exactly the non-zero entry lengths, they are consecutive (together they
  are the bytes that follow the header) and the cursor ends after them. When no entry
  length is zero, there are exactly \<open>num_entries\<close> descriptors.
\<close>

theorem SecurityBlock_skips_empty_entries:
  "SecurityBlock_init header content pos = (sb, pos') \<Longrightarrow>
   length (descriptors sb) = length (filter (\<lambda>n. n \<noteq> 0) (EntryLength header))
   \<and> (pos + sum_list (EntryLength header) \<le> length content \<longrightarrow>
        map length (descriptors sb) = filter (\<lambda>n. n \<noteq> 0) (EntryLength header)
        \<and> concat (descriptors sb) = take (sum_list (EntryLength header)) (drop pos content)
        \<and> pos' = pos + sum_list (EntryLength header))
   \<and> (length (EntryLength header) = NumEntries header \<and> 0 \<notin> set (EntryLength header) \<longrightarrow>
        length (descriptors sb) = NumEntries header)"
proof -
  assume a: "SecurityBlock_init header content pos = (sb, pos')"
  let ?r = "read_descriptors content pos (EntryLength header) []"
  from a have sb: "descriptors sb = fst ?r" and p: "pos' = snd ?r"
    by (auto simp: SecurityBlock_init_def split: prod.splits)
  have l: "length (descriptors sb) = length (filter (\<lambda>n. n \<noteq> 0) (EntryLength header))"
    by (simp add: sb read_descriptors_length)
  have "0 \<notin> set (EntryLength header) \<Longrightarrow>
          filter (\<lambda>n. n \<noteq> 0) (EntryLength header) = EntryLength header"
    by (rule filter_nonzero_id)
  then have n: "length (EntryLength header) = NumEntries header \<and> 0 \<notin> set (EntryLength header) \<longrightarrow>
        length (descriptors sb) = NumEntries header"
    using l by auto
  have e: "pos + sum_list (EntryLength header) \<le> length content \<longrightarrow>
        map length (descriptors sb) = filter (\<lambda>n. n \<noteq> 0) (EntryLength header)
        \<and> concat (descriptors sb) = take (sum_list (EntryLength header)) (drop pos content)
        \<and> pos' = pos + sum_list (EntryLength header)"
    using read_descriptors_exact [of pos "EntryLength header" content "[]"]
    by (simp add: sb p)
  show ?thesis using l e n by blast
qed

text \<open>
  The block with entry lengths 0 and 4: one descriptor of 4 bytes, the cursor 4 bytes
  further. With entry lengths 2 and 2 over the same bytes: two descriptors of 2 bytes.
\<close>

theorem SecurityBlock_skips_empty_entries_witness:
  "SecurityBlock_init sb_header_ex sb_content_ex 16
     = (\<lparr>sb_header = sb_header_ex, descriptors = [[0xAA, 0xBB, 0xCC, 0xDD]]\<rparr>, 20)
   \<and> 16 + sum_list (EntryLength sb_header_ex) \<le> length sb_content_ex
   \<and> map length (descriptors (fst (SecurityBlock_init sb_header_ex sb_content_ex 16))) = [4]
   \<and> length (EntryLength (sb_header_ex\<lparr>EntryLength := [2, 2]\<rparr>))
       = NumEntries (sb_header_ex\<lparr>EntryLength := [2, 2]\<rparr>)
   \<and> 0 \<notin> set (EntryLength (sb_header_ex\<lparr>EntryLength := [2, 2]\<rparr>))
   \<and> length (descriptors (fst (SecurityBlock_init (sb_header_ex\<lparr>EntryLength := [2, 2]\<rparr>)
                                  sb_content_ex 16))) = 2"
proof -
  have i: "SecurityBlock_init sb_header_ex sb_content_ex 16
     = (\<lparr>sb_header = sb_header_ex, descriptors = [[0xAA, 0xBB, 0xCC, 0xDD]]\<rparr>, 20)"
    by (simp add: SecurityBlock_init_def sb_header_ex_def sb_content_ex_def fh_read_def Let_def)
  have b: "16 + sum_list (EntryLength sb_header_ex) \<le> length sb_content_ex"
    by (simp add: sb_header_ex_def sb_content_ex_def)
  have el: "EntryLength sb_header_ex = [0, 4]" by (simp add: sb_header_ex_def)
  have "map length (descriptors \<lparr>sb_header = sb_header_ex, descriptors = [[0xAA, 0xBB, 0xCC, 0xDD]]\<rparr>)
          = filter (\<lambda>n. n \<noteq> 0) (EntryLength sb_header_ex)"
    using SecurityBlock_skips_empty_entries [OF i] b by blast
  then have m: "map length (descriptors (fst (SecurityBlock_init sb_header_ex sb_content_ex 16))) = [4]"
    by (simp add: i el)
  let ?h = "sb_header_ex\<lparr>EntryLength := [2, 2]\<rparr>"
  have n: "length (EntryLength ?h) = NumEntries ?h" by (simp add: sb_header_ex_def)
  have z: "0 \<notin> set (EntryLength ?h)" by simp
  have "SecurityBlock_init ?h sb_content_ex 16
          = (fst (SecurityBlock_init ?h sb_content_ex 16), snd (SecurityBlock_init ?h sb_content_ex 16))"
    by simp
  from SecurityBlock_skips_empty_entries [OF this] n z
  have l: "length (descriptors (fst (SecurityBlock_init ?h sb_content_ex 16))) = 2"
    by (simp add: sb_header_ex_def)
  show ?thesis by (intro conjI) (fact i b m n z l)+
qed

section \<open>The chunk table\<close>

lemma init_num_chunks_ceiling: "init_num_chunks n = spec_table_entries 32768 n"
proof -
  have "real n / real (32768::nat) = real_of_int (int n) / real_of_int 32768" by simp
  then have "\<lceil>real n / real (32768::nat)\<rceil> = - (- int n div 32768)"
    by (simp only: ceiling_divide_eq_div)
  also have "\<dots> = (int n + 32767) div 32768" by linarith
  finally show ?thesis by (simp add: init_num_chunks_def spec_table_entries_def)
qed

lemma unpack_items_map:
  "unpack_items w n buf = map (\<lambda>i. from_bytes_little (take w (drop (i * w) buf))) [0..<n]"
proof (induction n arbitrary: buf)
  case 0
  then show ?case by simp
next
  case (Suc n)
  have "map (\<lambda>i. from_bytes_little (take w (drop (i * w) buf))) [0..<Suc n]
        = from_bytes_little (take w buf)
            # map (\<lambda>i. from_bytes_little (take w (drop (Suc i * w) buf))) [0..<n]"
    by (simp only: map_upt_Suc) simp
  moreover have "\<And>i. drop (Suc i * w) buf = drop (i * w) (drop w buf)"
    by (simp add: add.commute)
  ultimately show ?case using Suc.IH [of "drop w buf"] by simp
qed

lemma table_slice:
  assumes "i < n" and "offset + n * w \<le> length fh"
  shows "take w (drop (i * w) (take (n * w) (drop offset fh))) = take w (drop (offset + i * w) fh)"
proof -
  have "i * w + w \<le> n * w"
    using assms(1) by (metis Suc_leI mult_Suc mult_le_mono1 add.commute)
  then have m: "min w (n * w - i * w) = w" by simp
  show ?thesis by (simp add: drop_take m add.commute)
qed

text \<open>
  Claim C3. The claim is that the chunk table read at construction has exactly
  \<open>N = ceil(original_size / CHUNK) - 1\<close> entries, where \<open>CHUNK\<close> is the chunk size of the
  archive as the header's \<^verbatim>\<open>CompressionSize\<close> gives it. The code does not use that field:
  the constructor computes the count with the literal \<^verbatim>\<open>32 * 1024\<close> and \<^verbatim>\<open>Resource.open\<close>
  passes no chunk size. In an archive whose header gives \<^verbatim>\<open>CompressionSize = 0x1000\<close>, a
  compressed resource of 4097 bytes has a table of \<open>ceil(4097 / 4096) - 1 = 1\<close> entry; the
  constructor finds the count 0, reads nothing (the cursor stays at the offset of the
  resource) and takes the whole resource, table included, for one chunk at offset 0.
\<close>

theorem chunk_table_ignores_CompressionSize:
  "unat (CompressionSize header_4k) = 4096
   \<and> r_original_size resource_4k = 4097
   \<and> spec_table_entries (unat (CompressionSize header_4k)) (r_original_size resource_4k) = 1
   \<and> init_num_chunks (r_original_size resource_4k) = 0
   \<and> Resource_open example_dmap fh_4k header_4k resource_4k = Inr (Compressed stream_4k)
   \<and> CompressedStream_init fh_4k 0 6 4097 expand4k = Inr (stream_4k, 0)
   \<and> cs_chunks stream_4k = [0]
   \<and> init_num_chunks (r_original_size resource_4k)
        \<noteq> spec_table_entries (unat (CompressionSize header_4k)) (r_original_size resource_4k)"
proof -
  have a: "unat (CompressionSize header_4k) = 4096" by (simp add: header_4k_def)
  have b: "r_original_size resource_4k = 4097" by (simp add: resource_4k_def)
  have c: "spec_table_entries (unat (CompressionSize header_4k)) (r_original_size resource_4k) = 1"
    by (simp add: a b spec_table_entries_def)
  have d: "init_num_chunks (r_original_size resource_4k) = 0"
    by (simp add: b init_num_chunks_def)
  have f: "CompressedStream_init fh_4k 0 6 4097 expand4k = Inr (stream_4k, 0)"
    using d by (simp add: CompressedStream_init_def b stream_4k_def)
  have e: "Resource_open example_dmap fh_4k header_4k resource_4k = Inr (Compressed stream_4k)"
    using f by (simp add: Resource_open_def resource_4k_def header_4k_def example_dmap_def
        is_spanned_def is_compressed_def RESHDR_FLAG_SPANNED_def RESHDR_FLAG_COMPRESSED_def)
  have g: "cs_chunks stream_4k = [0]" by (simp add: stream_4k_def)
  have h: "init_num_chunks (r_original_size resource_4k)
        \<noteq> spec_table_entries (unat (CompressionSize header_4k)) (r_original_size resource_4k)"
    by (simp add: c d)
  show ?thesis by (intro conjI) (fact a b c d e f g h)+
qed

text \<open>
  What the constructor reads, with its literal chunk size: for \<open>original_size > 0\<close> and a
  file that holds the table, it reads exactly \<open>ceil(original_size / 32768) - 1\<close> entries
  from the offset of the resource, each 4 bytes wide when \<open>original_size \<le> 0xFFFFFFFF\<close> and
  8 bytes wide otherwise, little-endian, and the cursor ends that many entries after the
  offset; when the count is 0 nothing is read and the list of chunk offsets is \<open>[0]\<close>.
\<close>

theorem chunk_table_fixed_chunk_size:
  assumes "0 < original_size"
    and "offset + nat (spec_table_entries 32768 original_size)
            * (if original_size \<le> 0xFFFFFFFF then 4 else 8) \<le> length fh"
  shows "\<exists>s. CompressedStream_init fh offset compressed_size original_size decompressor
            = Inr (s, offset + nat (spec_table_entries 32768 original_size)
                               * (if original_size \<le> 0xFFFFFFFF then 4 else 8))
          \<and> cs_chunks s =
              (if spec_table_entries 32768 original_size = 0 then [0]
               else map (\<lambda>i. from_bytes_little
                              (take (if original_size \<le> 0xFFFFFFFF then 4 else 8)
                                 (drop (offset + i * (if original_size \<le> 0xFFFFFFFF then 4 else 8)) fh)))
                      [0..<nat (spec_table_entries 32768 original_size)])"
proof -
  let ?N = "spec_table_entries 32768 original_size"
  let ?w = "if original_size \<le> 0xFFFFFFFF then 4 else 8 :: nat"
  have w: "entry_width original_size = ?w" by (auto simp: entry_width_def)
  have n: "init_num_chunks original_size = ?N" by (rule init_num_chunks_ceiling)
  have nonneg: "0 \<le> ?N"
    using assms(1) unfolding n [symmetric] init_num_chunks_def by simp
  show ?thesis
  proof (cases "?N = 0")
    case True
    then show ?thesis by (simp add: CompressedStream_init_def n Let_def)
  next
    case False
    let ?buf = "fh_read fh offset (int (nat ?N * ?w))"
    have buf: "?buf = take (nat ?N * ?w) (drop offset fh)" by (rule fh_read_nat)
    have len: "length ?buf = nat ?N * ?w" using assms(2) unfolding buf by simp
    have items: "unpack_items ?w (nat ?N) ?buf
          = map (\<lambda>i. from_bytes_little (take ?w (drop (offset + i * ?w) fh))) [0..<nat ?N]"
      unfolding unpack_items_map buf
      using table_slice [OF _ assms(2)] by (intro map_cong) auto
    have "CompressedStream_init fh offset compressed_size original_size decompressor
            = Inr (\<lparr>cs_fh = fh, cs_offset = offset, cs_compressed_size = compressed_size,
                   cs_original_size = original_size, cs_decompressor = decompressor,
                   cs_chunks = unpack_items ?w (nat ?N) ?buf\<rparr>, offset + nat ?N * ?w)"
      using False nonneg len
      by (simp add: CompressedStream_init_def n w Let_def struct_unpack_def del: unpack_items.simps)
    then show ?thesis using False items by simp
  qed
qed

lemma unpack_items_numeral:
  "unpack_items w (numeral k) buf =
     from_bytes_little (take w buf) # unpack_items w (pred_numeral k) (drop w buf)"
  by (simp add: numeral_eq_Suc)

lemma three_chunk_count: "init_num_chunks 98304 = 2"
  by (simp add: init_num_chunks_def)

lemma three_chunk_init:
  "CompressedStream_init three_chunk_fh 0 32 98304 expand4k = Inr (three_chunk_stream, 8)"
  by (simp add: CompressedStream_init_def three_chunk_count entry_width_def fh_read_def
      struct_unpack_def three_chunk_fh_def three_chunk_stream_def unpack_items_numeral)

text \<open>
  The resource of three chunks: \<open>N = 2\<close>, the table is 8 bytes, and the entries read are
  the two 4-byte numbers at its offset.
\<close>

theorem chunk_table_fixed_chunk_size_witness:
  "(0::nat) < 98304
   \<and> spec_table_entries 32768 98304 = 2
   \<and> (0::nat) + nat (spec_table_entries 32768 98304) * (if (98304::nat) \<le> 0xFFFFFFFF then 4 else 8)
        \<le> length three_chunk_fh
   \<and> CompressedStream_init three_chunk_fh 0 32 98304 expand4k = Inr (three_chunk_stream, 8)
   \<and> cs_chunks three_chunk_stream
       = map (\<lambda>i. from_bytes_little (take 4 (drop (0 + i * 4) three_chunk_fh))) [0..<2]"
proof -
  have p: "(0::nat) < 98304" by simp
  have N: "spec_table_entries 32768 98304 = 2"
    using init_num_chunks_ceiling [of 98304] three_chunk_count by simp
  have pre: "(0::nat) + nat (spec_table_entries 32768 98304)
               * (if (98304::nat) \<le> 0xFFFFFFFF then 4 else 8) \<le> length three_chunk_fh"
    by (simp add: N three_chunk_fh_def)
  from chunk_table_fixed_chunk_size [OF p pre, of 32 expand4k]
  obtain s where s: "CompressedStream_init three_chunk_fh 0 32 98304 expand4k = Inr (s, 8)"
    and c: "cs_chunks s = map (\<lambda>i. from_bytes_little (take 4 (drop (0 + i * 4) three_chunk_fh))) [0..<2]"
    by (auto simp: N)
  from s have "s = three_chunk_stream" by (simp add: three_chunk_init)
  then have c': "cs_chunks three_chunk_stream
       = map (\<lambda>i. from_bytes_little (take 4 (drop (0 + i * 4) three_chunk_fh))) [0..<2]"
    using c by simp
  show ?thesis by (intro conjI) (fact p N pre three_chunk_init c')+
qed

section \<open>Reading a compressed stream\<close>

lemma three_chunk_calls_full: "read_calls three_chunk_stream 0 98304 = [(8, 8), (16, 16)]"
  by (simp add: read_calls_def read_run_def three_chunk_stream_def DEFAULT_CHUNK_SIZE_def Let_def)

lemma three_chunk_calls_last:
  "read_calls three_chunk_stream 65536 32768 = []
   \<and> CompressedStream_read three_chunk_stream 65536 32768 = []"
  by (simp add: read_calls_def CompressedStream_read_def read_run_def three_chunk_stream_def
      DEFAULT_CHUNK_SIZE_def Let_def)

lemma three_chunk_read_full:
  "CompressedStream_read three_chunk_stream 0 98304 =
     concat (map (replicate 4096) [1, 2, 3, 4, 5, 6, 7, 8, 9, 10, 11, 12, 13, 14, 15, 16,
              17, 18, 19, 20, 21, 22, 23, 24])"
  by (simp add: CompressedStream_read_def read_run_def three_chunk_stream_def
      DEFAULT_CHUNK_SIZE_def Let_def read_chunk_def fh_read_def three_chunk_fh_def expand4k_def
      py_slice_def)

lemma three_chunk_read_range:
  "CompressedStream_read three_chunk_stream 4096 32768 =
     concat (map (replicate 4096) [2, 3, 4, 5, 6, 7, 8, 10])"
  by (simp add: CompressedStream_read_def read_run_def three_chunk_stream_def
      DEFAULT_CHUNK_SIZE_def Let_def read_chunk_def fh_read_def three_chunk_fh_def expand4k_def
      py_slice_def)

lemma three_chunk_slice:
  "py_slice (concat (map (replicate 4096) [1, 2, 3, 4, 5, 6, 7, 8, 9, 10, 11, 12, 13, 14, 15, 16,
              17, 18, 19, 20, 21, 22, 23, 24 :: byte])) 4096 36864 =
     concat (map (replicate 4096) [2, 3, 4, 5, 6, 7, 8, 9])"
  by (simp add: py_slice_def)

lemma three_chunk_differ:
  "concat (map (replicate 4096) [2, 3, 4, 5, 6, 7, 8, 10 :: byte])
     \<noteq> concat (map (replicate 4096) [2, 3, 4, 5, 6, 7, 8, 9])"
  by simp

text \<open>
  Claim C1. The claim is the round trip: for \<open>0 \<le> a \<le> b \<le> original_size\<close>, reading \<open>b - a\<close>
  bytes at offset \<open>a\<close> gives the slice \<open>[a, b)\<close> of the read of the whole stream. The code
  does not keep it. On the stream of three chunks, whose 24 compressed bytes \<open>1, ..., 24\<close>
  each stand for 4096 equal bytes, the read of the whole stream gives the runs
  \<open>1, ..., 24\<close>, so its slice \<open>[4096, 36864)\<close> is the runs \<open>2, ..., 9\<close>; the read of 32768
  bytes at offset 4096 gives the runs \<open>2, ..., 8\<close> and then the run \<open>10\<close>: the loop keeps
  \<^verbatim>\<open>offset_in_chunk = 4096\<close> when it moves on to the next chunk and skips that chunk's first
  4096 bytes.
\<close>

theorem read_range_differs_from_slice_of_full_read:
  "CompressedStream_init three_chunk_fh 0 32 98304 expand4k = Inr (three_chunk_stream, 8)
   \<and> CompressedStream_read three_chunk_stream 0 98304 =
       concat (map (replicate 4096) [1, 2, 3, 4, 5, 6, 7, 8, 9, 10, 11, 12, 13, 14, 15, 16,
                17, 18, 19, 20, 21, 22, 23, 24])
   \<and> py_slice (CompressedStream_read three_chunk_stream 0 98304) 4096 36864 =
       concat (map (replicate 4096) [2, 3, 4, 5, 6, 7, 8, 9])
   \<and> CompressedStream_read three_chunk_stream 4096 32768 =
       concat (map (replicate 4096) [2, 3, 4, 5, 6, 7, 8, 10])
   \<and> CompressedStream_read three_chunk_stream 4096 32768
       \<noteq> py_slice (CompressedStream_read three_chunk_stream 0 98304) 4096 36864"
proof -
  have s: "py_slice (CompressedStream_read three_chunk_stream 0 98304) 4096 36864 =
       concat (map (replicate 4096) [2, 3, 4, 5, 6, 7, 8, 9])"
    by (simp only: three_chunk_read_full three_chunk_slice)
  have d: "CompressedStream_read three_chunk_stream 4096 32768
       \<noteq> py_slice (CompressedStream_read three_chunk_stream 0 98304) 4096 36864"
    by (simp only: s three_chunk_read_range three_chunk_differ not_False_eq_True)
  show ?thesis
    by (intro conjI) (fact three_chunk_init three_chunk_read_full s three_chunk_read_range d)+
qed

text \<open>
  Claim C2. The claim is that, for a resource of more than one chunk, the read fetches
  chunk 0 from compressed offset 0, chunk \<open>i + 1\<close> from table entry \<open>i\<close>, and covers all
  \<open>N + 1\<close> chunks. The code does not: for \<open>N > 0\<close> the constructor stores the \<open>N\<close> table
  entries alone, without the leading 0 that it stores when \<open>N = 0\<close>. On the stream of
  three chunks (\<open>N = 2\<close>, table entries 8 and 16) the list of chunk offsets has two
  elements; the read of the whole stream makes two fetches, the first from offset 8 (table
  entry 0) and the second from offset 16 up to \<open>compressed_size\<close>, not three fetches from
  offsets 0, 8 and 16; and a read at position \<open>2 * 32768\<close>, in chunk number 2, fetches
  nothing and returns no bytes.
\<close>

theorem read_fetches_start_at_table_entry:
  "init_num_chunks 98304 = 2
   \<and> CompressedStream_init three_chunk_fh 0 32 98304 expand4k = Inr (three_chunk_stream, 8)
   \<and> cs_chunks three_chunk_stream = [8, 16]
   \<and> read_calls three_chunk_stream 0 98304 = [(8, 8), (16, 16)]
   \<and> map fst (read_calls three_chunk_stream 0 98304) \<noteq> [0, 8, 16]
   \<and> read_calls three_chunk_stream 65536 32768 = []
   \<and> CompressedStream_read three_chunk_stream 65536 32768 = []"
proof -
  have c: "cs_chunks three_chunk_stream = [8, 16]" by (simp add: three_chunk_stream_def)
  have n: "map fst (read_calls three_chunk_stream 0 98304) \<noteq> [0, 8, 16]"
    by (simp add: three_chunk_calls_full)
  have l1: "read_calls three_chunk_stream 65536 32768 = []"
    by (rule three_chunk_calls_last [THEN conjunct1])
  have l2: "CompressedStream_read three_chunk_stream 65536 32768 = []"
    by (rule three_chunk_calls_last [THEN conjunct2])
  show ?thesis
    by (intro conjI) (fact three_chunk_count three_chunk_init c three_chunk_calls_full n l1 l2)+
qed

subsection \<open>Resources of a single chunk\<close>

lemma py_slice_nat: "i \<le> j \<Longrightarrow> py_slice xs (int i) (int j) = take (j - i) (drop i xs)"
proof (cases "i \<le> length xs")
  case True
  assume "i \<le> j"
  with True show ?thesis
    by (simp add: py_slice_def Let_def min_def nat_diff_distrib')
next
  case False
  assume "i \<le> j"
  with False show ?thesis by (simp add: py_slice_def Let_def min_def)
qed

lemma py_slice_of_prefix:
  assumes "a \<le> b" and "b \<le> n"
  shows "py_slice (py_slice xs 0 (int n)) (int a) (int b) = py_slice xs (int a) (int b)"
proof -
  have "py_slice xs 0 (int n) = take n xs"
    using py_slice_nat [of 0 n xs] by simp
  moreover have "take (b - a) (drop a (take n xs)) = take (b - a) (drop a xs)"
    using assms by (simp add: drop_take min_def)
  ultimately show ?thesis using assms by (simp add: py_slice_nat)
qed

lemma read_loop_single_chunk:
  assumes "cs_chunks s = [0]" and "len \<noteq> 0"
  shows "read_loop s oic 0 len [] [] =
           ([py_slice (read_chunk s 0 (int (cs_compressed_size s))) (int oic)
               (int oic + min (int (cs_original_size s) - int oic) len)],
            [(0, int (cs_compressed_size s))])"
proof -
  have stop: "\<And>l r c. read_loop s oic (Suc 0) l r c = (r, c)"
    by (subst read_loop.simps) (simp add: assms(1))
  show ?thesis
    by (subst read_loop.simps) (simp add: assms Let_def stop del: read_loop.simps)
qed

text \<open>
  For a resource of a single chunk (\<open>0 < original_size \<le> 32768\<close>) the round trip of
  claim C1 holds: reading \<open>b - a\<close> bytes at offset \<open>a\<close> gives the slice \<open>[a, b)\<close> of the
  read of the whole stream, for \<open>a \<le> b \<le> original_size\<close>.
\<close>

theorem single_chunk_round_trip:
  assumes "CompressedStream_init fh offset compressed_size original_size decompressor = Inr (s, pos)"
    and "0 < original_size" and "original_size \<le> 32768"
    and "a \<le> b" and "b \<le> original_size"
  shows "CompressedStream_read s a (b - a)
           = py_slice (CompressedStream_read s 0 original_size) (int a) (int b)"
proof -
  have n: "init_num_chunks original_size = 0"
    using assms(2,3) by (simp add: init_num_chunks_def)
  from assms(1) have s: "cs_chunks s = [0]" "cs_original_size s = original_size"
    by (auto simp: CompressedStream_init_def n)
  let ?buf = "read_chunk s 0 (int (cs_compressed_size s))"
  have full: "CompressedStream_read s 0 original_size = py_slice ?buf 0 (int original_size)"
    using assms(2) read_loop_single_chunk [OF s(1), of "int original_size" 0]
    by (simp add: CompressedStream_read_def read_run_def s(2) DEFAULT_CHUNK_SIZE_def
          del: read_loop.simps)
  show ?thesis
  proof (cases "a = b")
    case True
    have "read_loop s (a mod DEFAULT_CHUNK_SIZE) (a div DEFAULT_CHUNK_SIZE) 0 [] [] = ([], [])"
      by (subst read_loop.simps) simp
    then have "CompressedStream_read s a (b - a) = []"
      using True by (simp add: CompressedStream_read_def read_run_def del: read_loop.simps)
    moreover have "py_slice (CompressedStream_read s 0 original_size) (int a) (int b) = []"
      using True py_slice_nat [of a a] by simp
    ultimately show ?thesis by simp
  next
    case False
    then have lt: "a < b" using assms(4) by simp
    then have small: "a < 32768" using assms(3,5) by simp
    have m: "int a + min (int original_size - int a) (int b - int a) = int b"
      using lt assms(5) by (simp add: min_def)
    have "CompressedStream_read s a (b - a) = py_slice ?buf (int a) (int b)"
      using lt small read_loop_single_chunk [OF s(1), of "int (b - a)" a]
      by (simp add: CompressedStream_read_def read_run_def s(2) DEFAULT_CHUNK_SIZE_def m
            del: read_loop.simps)
    then show ?thesis
      using py_slice_of_prefix [OF assms(4,5), of ?buf] by (simp add: full)
  qed
qed

theorem single_chunk_round_trip_witness:
  "CompressedStream_init [1, 2] 0 2 8192 expand4k = Inr (one_chunk_stream, 0)
   \<and> (0::nat) < 8192 \<and> (8192::nat) \<le> 32768 \<and> (4096::nat) \<le> 8192
   \<and> CompressedStream_read one_chunk_stream 4096 (8192 - 4096)
       = py_slice (CompressedStream_read one_chunk_stream 0 8192) (int 4096) (int 8192)"
proof -
  have i: "CompressedStream_init [1, 2] 0 2 8192 expand4k = Inr (one_chunk_stream, 0)"
    by (simp add: CompressedStream_init_def init_num_chunks_def one_chunk_stream_def)
  have p: "(0::nat) < 8192" "(8192::nat) \<le> 32768" "(4096::nat) \<le> 8192" "(8192::nat) \<le> 8192"
    by simp_all
  note r = single_chunk_round_trip [OF i p(1) p(2) p(3) p(4)]
  show ?thesis by (intro conjI) (fact i p r)+
qed

end
